theory Spec2Isabelle
  imports Main "HOL-Library.Word" "HOL-Library.Multiset"
begin

unbundle bit_operations_syntax

section \<open>OpenGL values and the calls issued by the material layer\<close>

text \<open>
  \<open>GLint\<close>, \<open>GLuint\<close> and \<open>GLenum\<close> are 32-bit; a \<open>GLint\<close> is read with \<open>sint\<close>.
  A \<open>GLfloat\<close> is kept as its 32-bit pattern: the material layer only copies floats.
\<close>

type_synonym GLint = "32 word"
type_synonym GLuint = "32 word"
type_synonym GLenum = "32 word"
type_synonym GLfloat = "32 word"

datatype vec2 = vec2 GLfloat GLfloat
datatype vec3 = vec3 GLfloat GLfloat GLfloat
datatype vec4 = vec4 GLfloat GLfloat GLfloat GLfloat
datatype mat4 = mat4 vec4 vec4 vec4 vec4

text \<open>\<open>glm::value_ptr\<close>: the components in memory order (a \<open>mat4\<close> is four columns).\<close>

fun value_ptr2 :: "vec2 \<Rightarrow> GLfloat list" where
  "value_ptr2 (vec2 a b) = [a, b]"

fun value_ptr3 :: "vec3 \<Rightarrow> GLfloat list" where
  "value_ptr3 (vec3 a b c) = [a, b, c]"

fun value_ptr4 :: "vec4 \<Rightarrow> GLfloat list" where
  "value_ptr4 (vec4 a b c d) = [a, b, c, d]"

fun value_ptr_mat4 :: "mat4 \<Rightarrow> GLfloat list" where
  "value_ptr_mat4 (mat4 c0 c1 c2 c3) =
     value_ptr4 c0 @ value_ptr4 c1 @ value_ptr4 c2 @ value_ptr4 c3"

definition GL_TEXTURE0 :: GLenum where
  "GL_TEXTURE0 = 0x84C0"

definition GL_TEXTURE_2D :: GLenum where
  "GL_TEXTURE_2D = 0x0DE1"

definition GL_TEXTURE_3D :: GLenum where
  "GL_TEXTURE_3D = 0x806F"

definition GL_MAX_COMBINED_TEXTURE_IMAGE_UNITS :: GLint where
  "GL_MAX_COMBINED_TEXTURE_IMAGE_UNITS = 0x8B4D"

text \<open>Modelled from the spec: \<open>glError()\<close> is defined outside the two source files. It is
  the event \<open>GlError\<close>, a check that returns to its caller: an unresolved name is a warning,
  not a fatal error. The other constructors are the OpenGL calls and the output of
  \<open>Material.cpp\<close>, in the order they are made; \<open>Printf\<close> is text on standard output.
\<close>

datatype gl_call =
    GlError
  | GetUniformLocation GLuint string
  | Uniform1i GLint GLint
  | Uniform1ui GLint GLuint
  | Uniform1f GLint GLfloat
  | Uniform2fv GLint GLint "GLfloat list"
  | Uniform3fv GLint GLint "GLfloat list"
  | Uniform4fv GLint GLint "GLfloat list"
  | UniformMatrix4fv GLint GLint bool "GLfloat list"
  | ActiveTexture GLenum
  | BindTexture GLenum GLuint
  | Printf string
  | CreateProgram
  | AttachShader GLuint GLuint
  | LinkProgram GLuint
  | GetProgramiv GLuint
  | GetProgramInfoLog GLuint
  | Cerr string
  | Cout string

text \<open>
  The answer of \<open>glGetUniformLocation\<close>: the location the linked program reports for a
  name, \<open>-1\<close> when the name is no active uniform of it.
\<close>

type_synonym uniform_table = "GLuint \<Rightarrow> string \<Rightarrow> GLint"

text \<open>A failed \<open>assert\<close> ends the process; the text is the asserted condition.\<close>

datatype failure = AssertionFailed string

type_synonym 'a outcome = "gl_call list \<times> (failure + 'a)"

section \<open>Shader parameters\<close>

text \<open>
  The classes \<open>Texture2D\<close>, \<open>Texture3D\<close>, \<open>PointLight\<close> and \<open>ShaderParameter\<close> are
  declared outside the two source files; they have the members \<open>Material.cpp\<close> reads. A
  sampler holds a pointer to its texture, of which only \<open>GetTextureID()\<close> is used.
\<close>

record Texture2D =
  textureID2D :: GLuint

record Texture3D =
  textureID3D :: GLuint

record PointLight =
  index :: int
  position :: vec3
  color :: vec3

datatype Type =
    NONE | MAT4 | VEC4 | VEC3 | VEC2 | FLOAT | INT' | BOOLEAN | UINT
  | SAMPLER_2D | SAMPLER_3D | POINT_LIGHT | UNRECOGNIZED

text \<open>
  A \<open>ShaderParameter\<close> is a type tag with the value of that type. \<open>UnrecognizedParam\<close>
  stands for a tag that no case of the switch in \<open>setValue\<close> names.
\<close>

datatype ShaderParameter =
    NoneParam
  | Mat4Param mat4
  | Vec4Param vec4
  | Vec3Param vec3
  | Vec2Param vec2
  | FloatParam GLfloat
  | IntParam GLint
  | BoolParam bool
  | UIntParam GLuint
  | Sampler2DParam Texture2D
  | Sampler3DParam Texture3D
  | PointLightParam PointLight
  | UnrecognizedParam

fun getType :: "ShaderParameter \<Rightarrow> Type" where
  "getType NoneParam = NONE"
| "getType (Mat4Param _) = MAT4"
| "getType (Vec4Param _) = VEC4"
| "getType (Vec3Param _) = VEC3"
| "getType (Vec2Param _) = VEC2"
| "getType (FloatParam _) = FLOAT"
| "getType (IntParam _) = INT'"
| "getType (BoolParam _) = BOOLEAN"
| "getType (UIntParam _) = UINT"
| "getType (Sampler2DParam _) = SAMPLER_2D"
| "getType (Sampler3DParam _) = SAMPLER_3D"
| "getType (PointLightParam _) = POINT_LIGHT"
| "getType UnrecognizedParam = UNRECOGNIZED"

type_synonym ShaderParamsGroup = "(string \<times> ShaderParameter) list"

section \<open>Material and its Commands\<close>

record Material =
  name :: string
  program :: GLuint

record Commands =
  material :: Material
  textureUnits :: GLint

text \<open>\<open>std::to_string\<close> of an integer: decimal digits, a minus sign when negative.\<close>

fun string_of_nat :: "nat \<Rightarrow> string" where
  "string_of_nat n =
     (if n < 10 then [''0123456789'' ! n]
      else string_of_nat (n div 10) @ [''0123456789'' ! (n mod 10)])"

definition to_string :: "int \<Rightarrow> string" where
  "to_string i = (if i < 0 then CHR ''-'' # string_of_nat (nat (- i)) else string_of_nat (nat i))"

definition SetParameteri :: "uniform_table \<Rightarrow> Commands \<Rightarrow> string \<Rightarrow> GLint \<Rightarrow> gl_call list \<times> GLint" where
  "SetParameteri gl c parameterName val =
     (let location = gl (program (material c)) parameterName
      in ([GetUniformLocation (program (material c)) parameterName,
           Uniform1i location val], location))"

text \<open>
  \<open>SetParameterui\<close> keeps the location in a \<open>GLuint\<close> and hands it back as a \<open>GLint\<close>:
  the 32 bits are the same.
\<close>

definition SetParameterui :: "uniform_table \<Rightarrow> Commands \<Rightarrow> string \<Rightarrow> GLuint \<Rightarrow> gl_call list \<times> GLint" where
  "SetParameterui gl c parameterName val =
     (let location = gl (program (material c)) parameterName
      in ([GetUniformLocation (program (material c)) parameterName,
           Uniform1ui location val], location))"

definition SetParameterf :: "uniform_table \<Rightarrow> Commands \<Rightarrow> string \<Rightarrow> GLfloat \<Rightarrow> gl_call list \<times> GLint" where
  "SetParameterf gl c parameterName val =
     (let location = gl (program (material c)) parameterName
      in ([GetUniformLocation (program (material c)) parameterName,
           Uniform1f location val], location))"

definition SetParameterv4 :: "uniform_table \<Rightarrow> Commands \<Rightarrow> string \<Rightarrow> vec4 \<Rightarrow> gl_call list \<times> GLint" where
  "SetParameterv4 gl c parameterName val =
     (let location = gl (program (material c)) parameterName
      in ([GetUniformLocation (program (material c)) parameterName,
           Uniform4fv location 1 (value_ptr4 val)], location))"

definition SetParameterv3 :: "uniform_table \<Rightarrow> Commands \<Rightarrow> string \<Rightarrow> vec3 \<Rightarrow> gl_call list \<times> GLint" where
  "SetParameterv3 gl c parameterName val =
     (let location = gl (program (material c)) parameterName
      in ([GetUniformLocation (program (material c)) parameterName,
           Uniform3fv location 1 (value_ptr3 val)], location))"

definition SetParameterv2 :: "uniform_table \<Rightarrow> Commands \<Rightarrow> string \<Rightarrow> vec2 \<Rightarrow> gl_call list \<times> GLint" where
  "SetParameterv2 gl c parameterName val =
     (let location = gl (program (material c)) parameterName
      in ([GetUniformLocation (program (material c)) parameterName,
           Uniform2fv location 1 (value_ptr2 val)], location))"

definition SetParamatermat4 :: "uniform_table \<Rightarrow> Commands \<Rightarrow> string \<Rightarrow> mat4 \<Rightarrow> gl_call list \<times> GLint" where
  "SetParamatermat4 gl c parameterName val =
     (let location = gl (program (material c)) parameterName
      in ([GetUniformLocation (program (material c)) parameterName,
           UniformMatrix4fv location 1 False (value_ptr_mat4 val)], location))"

definition SetParameterBool :: "uniform_table \<Rightarrow> Commands \<Rightarrow> string \<Rightarrow> bool \<Rightarrow> gl_call list \<times> GLint" where
  "SetParameterBool gl c parameterName val =
     (let result = gl (program (material c)) parameterName
      in ([GetUniformLocation (program (material c)) parameterName,
           Uniform1i result (if val then 1 else 0)], result))"

definition ActivateTexture2D :: "uniform_table \<Rightarrow> Commands \<Rightarrow> string \<Rightarrow> GLint \<Rightarrow> GLint \<Rightarrow> GLint outcome" where
  "ActivateTexture2D gl c samplerName textureName textureUnit =
     (if \<not> sint textureUnit < sint GL_MAX_COMBINED_TEXTURE_IMAGE_UNITS
      then ([], Inl (AssertionFailed ''GL_MAX_COMBINED_TEXTURE_IMAGE_UNITS > textureUnit''))
      else
        (let location = gl (program (material c)) samplerName
         in ([ActiveTexture (GL_TEXTURE0 + textureUnit),
              BindTexture GL_TEXTURE_2D textureName,
              GetUniformLocation (program (material c)) samplerName,
              Uniform1i location textureUnit], Inr location)))"

definition ActivateTexture3D :: "uniform_table \<Rightarrow> Commands \<Rightarrow> string \<Rightarrow> GLint \<Rightarrow> GLint \<Rightarrow> GLint outcome" where
  "ActivateTexture3D gl c samplerName textureName textureUnit =
     (if \<not> sint textureUnit < sint GL_MAX_COMBINED_TEXTURE_IMAGE_UNITS
      then ([], Inl (AssertionFailed ''GL_MAX_COMBINED_TEXTURE_IMAGE_UNITS > textureUnit''))
      else
        (let location = gl (program (material c)) samplerName
         in ([ActiveTexture (GL_TEXTURE0 + textureUnit),
              BindTexture GL_TEXTURE_3D textureName,
              GetUniformLocation (program (material c)) samplerName,
              Uniform1i location textureUnit], Inr location)))"

definition SetParameterSampler2D :: "uniform_table \<Rightarrow> Commands \<Rightarrow> string \<Rightarrow> Texture2D \<Rightarrow> GLint outcome" where
  "SetParameterSampler2D gl c parameterName sampler =
     ActivateTexture2D gl c parameterName (textureID2D sampler) (textureUnits c)"

definition SetParameterSampler3D :: "uniform_table \<Rightarrow> Commands \<Rightarrow> string \<Rightarrow> Texture3D \<Rightarrow> GLint outcome" where
  "SetParameterSampler3D gl c parameterName sampler =
     ActivateTexture3D gl c parameterName (textureID3D sampler) (textureUnits c)"

definition position_name :: "PointLight \<Rightarrow> string" where
  "position_name light = ''pointLights['' @ to_string (index light) @ ''].position''"

definition color_name :: "PointLight \<Rightarrow> string" where
  "color_name light = ''pointLights['' @ to_string (index light) @ ''].color''"

definition SetPointLight :: "uniform_table \<Rightarrow> Commands \<Rightarrow> string \<Rightarrow> PointLight \<Rightarrow> gl_call list \<times> GLint" where
  "SetPointLight gl c parameterName light =
     (let location = gl (program (material c)) (position_name light)
      in if location \<noteq> - 1
         then
           (let location' = gl (program (material c)) (color_name light)
            in ([GetUniformLocation (program (material c)) (position_name light),
                 Uniform3fv location 1 (value_ptr3 (position light)),
                 GetUniformLocation (program (material c)) (color_name light),
                 Uniform3fv location' 1 (value_ptr3 (color light))], location'))
         else
           ([GetUniformLocation (program (material c)) (position_name light),
             Uniform3fv location 1 (value_ptr3 (position light)),
             Uniform3fv location 1 (value_ptr3 (color light))], location))"

definition returned :: "gl_call list \<times> 'a \<Rightarrow> 'a outcome" where
  "returned r = (fst r, Inr (snd r))"

text \<open>The switch of \<open>setValue\<close>: one typed upload per tag.\<close>

fun typed_upload :: "uniform_table \<Rightarrow> Commands \<Rightarrow> ShaderParameter \<Rightarrow> string \<Rightarrow> GLint outcome" where
  "typed_upload gl c (Mat4Param v) nm = returned (SetParamatermat4 gl c nm v)"
| "typed_upload gl c (Vec4Param v) nm = returned (SetParameterv4 gl c nm v)"
| "typed_upload gl c (Vec3Param v) nm = returned (SetParameterv3 gl c nm v)"
| "typed_upload gl c (Vec2Param v) nm = returned (SetParameterv2 gl c nm v)"
| "typed_upload gl c (FloatParam v) nm = returned (SetParameterf gl c nm v)"
| "typed_upload gl c (IntParam v) nm = returned (SetParameteri gl c nm v)"
| "typed_upload gl c (BoolParam v) nm = returned (SetParameterBool gl c nm v)"
| "typed_upload gl c (UIntParam v) nm = returned (SetParameterui gl c nm v)"
| "typed_upload gl c (Sampler2DParam s) nm = SetParameterSampler2D gl c nm s"
| "typed_upload gl c (Sampler3DParam s) nm = SetParameterSampler3D gl c nm s"
| "typed_upload gl c (PointLightParam l) nm = returned (SetPointLight gl c nm l)"
| "typed_upload gl c _ nm = ([], Inl (AssertionFailed ''false && \"unrecognized setting for shader\"''))"

definition warning :: "string \<Rightarrow> string \<Rightarrow> string" where
  "warning nm mat =
     ''WARNING: parameter '' @ nm @ '' was not found for material '' @ mat @ [CHR 0x0A]"

definition setValue :: "uniform_table \<Rightarrow> Commands \<Rightarrow> ShaderParameter \<Rightarrow> string \<Rightarrow> unit outcome" where
  "setValue gl c setting nm =
     (if getType setting = NONE
      then ([], Inl (AssertionFailed ''setting.getType() != ShaderParameter::Type::NONE''))
      else
        (case typed_upload gl c setting nm of
           (calls, Inl f) \<Rightarrow> (GlError # calls, Inl f)
         | (calls, Inr result) \<Rightarrow>
             (GlError # calls @ GlError #
                (if result = - 1 then [Printf (warning nm (name (material c)))] else []),
              Inr ())))"

definition is_sampler :: "ShaderParameter \<Rightarrow> bool" where
  "is_sampler setting \<longleftrightarrow> getType setting = SAMPLER_2D \<or> getType setting = SAMPLER_3D"

fun upload_loop :: "uniform_table \<Rightarrow> Commands \<Rightarrow> ShaderParamsGroup \<Rightarrow> Commands outcome" where
  "upload_loop gl c [] = ([], Inr c)"
| "upload_loop gl c ((nm, setting) # rest) =
     (case setValue gl c setting nm of
        (calls, Inl f) \<Rightarrow> (GlError # calls, Inl f)
      | (calls, Inr _) \<Rightarrow>
          (let c' = c\<lparr>textureUnits := textureUnits c + (if is_sampler setting then 1 else 0)\<rparr>;
               r = upload_loop gl c' rest
           in (GlError # calls @ GlError # fst r, snd r)))"

definition uploadParameters :: "uniform_table \<Rightarrow> Commands \<Rightarrow> ShaderParamsGroup \<Rightarrow> Commands outcome" where
  "uploadParameters gl c grp =
     (case upload_loop gl (c\<lparr>textureUnits := 0\<rparr>) grp of
        (calls, Inl f) \<Rightarrow> (calls, Inl f)
      | (calls, Inr c') \<Rightarrow> (calls, Inr (c'\<lparr>textureUnits := 0\<rparr>)))"


section \<open>Assembling the program of a Material\<close>




text \<open>
  What the driver answers while a program is assembled: the name \<open>glCreateProgram\<close>
  returns, the link status and the info log. The log is read into \<open>GLchar log[1024]\<close>,
  so at most 1023 of its characters are printed.
\<close>

record gl_linker =
  created_program :: GLuint
  link_status :: bool
  info_log :: string

definition link_report :: "gl_linker \<Rightarrow> string \<Rightarrow> gl_call list" where
  "link_report drv nm =
     (if \<not> link_status drv
      then [GetProgramInfoLog (created_program drv),
            Cerr (''- Failed to link program and material '' @ [CHR 0x27] @ nm @ [CHR 0x27] @ '' ('' @
                  to_string (uint (created_program drv)) @ '').'' @ [CHR 0x0A]),
            Cerr (''LOG: '' @ [CHR 0x0A] @ take 1023 (info_log drv) @ [CHR 0x0A])]
      else [Cout (''- Material '' @ [CHR 0x27] @ nm @ [CHR 0x27] @ '' (program '' @
                  to_string (uint (created_program drv)) @ '') sucessfully created.'' @ [CHR 0x0A])])"



text \<open>The shader names handed to \<open>glAttachShader\<close>, in order.\<close>

definition attached :: "gl_call list \<Rightarrow> GLuint list" where
  "attached calls = concat (map (\<lambda>call. case call of AttachShader p i \<Rightarrow> [i] | _ \<Rightarrow> []) calls)"


section \<open>What an upload pass is expected to do\<close>

text \<open>
  The calls an entry of each type is to produce, written out with their data. For the ten
  types other than a point light: the location is looked up under the entry's name and
  the upload call of the type follows with that location and the value; a sampler first
  makes unit \<open>u\<close> (\<open>GL_TEXTURE0\<close> is \<open>0x84C0\<close>) active and binds its texture to
  \<open>GL_TEXTURE_2D\<close> (\<open>0x0DE1\<close>) or \<open>GL_TEXTURE_3D\<close> (\<open>0x806F\<close>), and uploads the unit.
  A point light is looked up under \<open>pointLights[index].position\<close> and
  \<open>pointLights[index].color\<close>, and the colour goes to location \<open>-1\<close> without a lookup when
  the position is not found.
\<close>

fun light_upload :: "uniform_table \<Rightarrow> GLuint \<Rightarrow> int \<Rightarrow> vec3 \<Rightarrow> vec3 \<Rightarrow> gl_call list" where
  "light_upload gl p i (vec3 x y z) (vec3 r g b) =
     (if gl p (''pointLights['' @ to_string i @ ''].position'') = - 1
      then [GetUniformLocation p (''pointLights['' @ to_string i @ ''].position''),
            Uniform3fv (- 1) 1 [x, y, z],
            Uniform3fv (- 1) 1 [r, g, b]]
      else [GetUniformLocation p (''pointLights['' @ to_string i @ ''].position''),
            Uniform3fv (gl p (''pointLights['' @ to_string i @ ''].position'')) 1 [x, y, z],
            GetUniformLocation p (''pointLights['' @ to_string i @ ''].color''),
            Uniform3fv (gl p (''pointLights['' @ to_string i @ ''].color'')) 1 [r, g, b]])"

fun upload_by_type :: "uniform_table \<Rightarrow> GLuint \<Rightarrow> GLint \<Rightarrow> string \<Rightarrow> ShaderParameter \<Rightarrow> gl_call list" where
  "upload_by_type gl p u nm (Mat4Param (mat4 (vec4 a0 a1 a2 a3) (vec4 b0 b1 b2 b3)
       (vec4 c0 c1 c2 c3) (vec4 d0 d1 d2 d3))) =
     [GetUniformLocation p nm,
      UniformMatrix4fv (gl p nm) 1 False
        [a0, a1, a2, a3, b0, b1, b2, b3, c0, c1, c2, c3, d0, d1, d2, d3]]"
| "upload_by_type gl p u nm (Vec4Param (vec4 a b c d)) =
     [GetUniformLocation p nm, Uniform4fv (gl p nm) 1 [a, b, c, d]]"
| "upload_by_type gl p u nm (Vec3Param (vec3 a b c)) =
     [GetUniformLocation p nm, Uniform3fv (gl p nm) 1 [a, b, c]]"
| "upload_by_type gl p u nm (Vec2Param (vec2 a b)) =
     [GetUniformLocation p nm, Uniform2fv (gl p nm) 1 [a, b]]"
| "upload_by_type gl p u nm (FloatParam v) =
     [GetUniformLocation p nm, Uniform1f (gl p nm) v]"
| "upload_by_type gl p u nm (IntParam v) =
     [GetUniformLocation p nm, Uniform1i (gl p nm) v]"
| "upload_by_type gl p u nm (UIntParam v) =
     [GetUniformLocation p nm, Uniform1ui (gl p nm) v]"
| "upload_by_type gl p u nm (BoolParam v) =
     [GetUniformLocation p nm, Uniform1i (gl p nm) (if v then 1 else 0)]"
| "upload_by_type gl p u nm (Sampler2DParam t) =
     [ActiveTexture (0x84C0 + u), BindTexture 0x0DE1 (textureID2D t),
      GetUniformLocation p nm, Uniform1i (gl p nm) u]"
| "upload_by_type gl p u nm (Sampler3DParam t) =
     [ActiveTexture (0x84C0 + u), BindTexture 0x806F (textureID3D t),
      GetUniformLocation p nm, Uniform1i (gl p nm) u]"
| "upload_by_type gl p u nm (PointLightParam l) =
     light_upload gl p (index l) (position l) (color l)"
| "upload_by_type gl p u nm _ = []"

text \<open>
  The location an entry reports as found or not: the one of its name, and for a point
  light the one of the colour, or \<open>-1\<close> when the position is not found.
\<close>

fun reported_location :: "uniform_table \<Rightarrow> GLuint \<Rightarrow> string \<Rightarrow> ShaderParameter \<Rightarrow> GLint" where
  "reported_location gl p nm (PointLightParam l) =
     (if gl p (''pointLights['' @ to_string (index l) @ ''].position'') = - 1 then - 1
      else gl p (''pointLights['' @ to_string (index l) @ ''].color''))"
| "reported_location gl p nm _ = gl p nm"

text \<open>
  Reading a decimal numeral back: the value of a string of digits, with a minus sign in
  front for a negative number, and what makes such a string the numeral of a number (no
  other characters, no leading zero, no \<open>-0\<close>).
\<close>

definition digit_value :: "char \<Rightarrow> nat" where
  "digit_value ch = of_char ch - 48"

definition nat_of_decimal :: "string \<Rightarrow> nat" where
  "nat_of_decimal ds = foldl (\<lambda>a ch. 10 * a + digit_value ch) 0 ds"

fun int_of_decimal :: "string \<Rightarrow> int" where
  "int_of_decimal [] = 0"
| "int_of_decimal (ch # ds) =
     (if ch = CHR ''-'' then - int (nat_of_decimal ds) else int (nat_of_decimal (ch # ds)))"

definition plain_decimal :: "string \<Rightarrow> bool" where
  "plain_decimal ds \<longleftrightarrow>
     ds \<noteq> [] \<and> (\<forall>ch \<in> set ds. ch \<in> set ''0123456789'') \<and> (hd ds = CHR ''0'' \<longrightarrow> ds = ''0'')"

fun signed_decimal :: "string \<Rightarrow> bool" where
  "signed_decimal [] = False"
| "signed_decimal (ch # ds) =
     (if ch = CHR ''-'' then plain_decimal ds \<and> ds \<noteq> ''0'' else plain_decimal (ch # ds))"


definition eleven_types :: "Type set" where
  "eleven_types = {MAT4, VEC4, VEC3, VEC2, FLOAT, INT', UINT, BOOLEAN, SAMPLER_2D, SAMPLER_3D, POINT_LIGHT}"

definition sampler_count :: "ShaderParamsGroup \<Rightarrow> nat" where
  "sampler_count g = length (filter (\<lambda>e. is_sampler (snd e)) g)"

text \<open>
  The groups on which no assertion of the pass fails: every entry has one of the eleven
  types, and every sampler gets a unit below \<open>GL_MAX_COMBINED_TEXTURE_IMAGE_UNITS\<close>.
\<close>

definition accepted :: "ShaderParamsGroup \<Rightarrow> bool" where
  "accepted g \<longleftrightarrow>
     (\<forall>e \<in> set g. getType (snd e) \<in> eleven_types) \<and>
     sampler_count g \<le> unat GL_MAX_COMBINED_TEXTURE_IMAGE_UNITS"


section \<open>The compute shader\<close>

type_synonym size_t = "64 word"

text \<open>Modelled from the spec: the access mode a texture is wrapped with (the bodies of the
  image-binding functions are not in \<open>ComputeShader.h\<close>).
\<close>

datatype access_mode = ReadOnly | WriteOnly | ReadWrite

text \<open>Modelled from the spec: the dimensionality of a wrapped texture, 2D or 3D.\<close>

datatype dimensionality = Dim2D | Dim3D

text \<open>Modelled from the spec: what a \<open>cl_image\<close> handle stands for. An image object is the
  texture it wraps, its access mode and its dimensionality; \<open>handle\<close> tells two image
  objects apart.
\<close>

datatype cl_image = ClImage (handle: nat) (texture: int) (access: access_mode) (dims: dimensionality)

text \<open>Modelled from the spec: the error taxonomy; no error type is declared in the header.\<close>

datatype cl_error =
    DeviceNotFound | ContextCreationFailed | BuildFailed string | EntryPointNotFound
  | ImageWrapFailed | ArgumentIndexOutOfRange | ImageTableFull | DispatchFailed

definition MAX_IMAGES :: nat where
  "MAX_IMAGES = 9"

text \<open>
  The data members of \<open>ComputeShader\<close>. Handles are opaque numbers; \<open>program\<close> and
  \<open>context\<close> carry a prefix here. \<open>size_t globalWorkSize[3]\<close> is a triple, and the
  occupied slots of \<open>image_objects[MAX_IMAGES]\<close> are a list.
\<close>

record ComputeShader =
  shareGroup :: nat
  cl_program :: nat
  device_id :: nat
  cl_context :: nat
  dispatch_queue :: nat
  command_queue :: nat
  workgroup_size :: size_t
  kernel :: nat
  globalWorkSize :: "size_t \<times> size_t \<times> size_t"
  image_objects :: "cl_image list"
  dimensions :: GLuint
  methodName :: "string option"
  images :: "int \<rightharpoonup> cl_image"
  argument_images :: "int \<rightharpoonup> cl_image"

text \<open>Modelled from the spec: the part of the OpenCL runtime the binder acts on. \<open>next_image\<close>
  is the handle the next wrapped texture gets, \<open>released\<close> the image objects released so
  far, oldest first, and \<open>diagnostics\<close> the errors logged.
\<close>

record cl_session = ComputeShader +
  next_image :: nat
  released :: "cl_image list"
  diagnostics :: "cl_error list"

text \<open>Modelled from the spec: what the platform answers. The device each acquisition yields
  (\<open>None\<close> when it fails), whether a device supports sharing with the graphics context,
  the context that is created, the number of arguments the kernel declares, and which
  textures can be wrapped.
\<close>

record cl_platform =
  gpu_device :: "nat option"
  cpu_device :: "nat option"
  sharing_supported :: "nat \<Rightarrow> bool"
  new_context :: nat
  kernel_arg_count :: nat
  wrappable :: "int \<Rightarrow> bool"

text \<open>
  A \<open>float\<close> is an IEEE-754 binary32 pattern: a sign bit, eight exponent bits and 23
  fraction bits. Every finite float is a whole multiple of \<open>2 ^ -149\<close>; \<open>float_scaled\<close> is
  that multiple, the exact value times \<open>2 ^ 149\<close>.
\<close>

definition float_exponent :: "GLfloat \<Rightarrow> nat" where
  "float_exponent f = unat (drop_bit 23 f AND 0xFF)"

definition float_fraction :: "GLfloat \<Rightarrow> nat" where
  "float_fraction f = unat (f AND 0x7FFFFF)"

definition float_negative :: "GLfloat \<Rightarrow> bool" where
  "float_negative f \<longleftrightarrow> drop_bit 31 f = 1"

definition float_finite :: "GLfloat \<Rightarrow> bool" where
  "float_finite f \<longleftrightarrow> float_exponent f \<noteq> 255"

definition float_scaled :: "GLfloat \<Rightarrow> int" where
  "float_scaled f =
     (let magnitude =
            (if float_exponent f = 0 then int (float_fraction f)
             else int ((2 ^ 23 + float_fraction f) * 2 ^ (float_exponent f - 1)))
      in if float_negative f then - magnitude else magnitude)"

text \<open>
  The conversion of a float to \<open>size_t\<close> that an assignment makes in C++: the fraction is
  discarded (truncation towards zero). When the truncated value is no \<open>size_t\<close> (it is
  negative or at least \<open>2 ^ 64\<close>, or the float is infinite or no number) C++ leaves the
  result undefined; what is stored then is the platform's answer \<open>unspecified\<close>.
\<close>

definition float_truncated :: "GLfloat \<Rightarrow> int" where
  "float_truncated f =
     (if float_scaled f < 0 then - ((- float_scaled f) div 2 ^ 149)
      else float_scaled f div 2 ^ 149)"

definition size_t_of_float :: "(GLfloat \<Rightarrow> size_t) \<Rightarrow> GLfloat \<Rightarrow> size_t" where
  "size_t_of_float unspecified f =
     (if float_finite f \<and> 0 \<le> float_truncated f \<and> float_truncated f < 2 ^ 64
      then word_of_int (float_truncated f)
      else unspecified f)"

text \<open>\<open>setGlobalWorkSize\<close> is defined in the header: three assignments of a float to a \<open>size_t\<close>.\<close>

fun vec3_x :: "vec3 \<Rightarrow> GLfloat" where
  "vec3_x (vec3 a b c) = a"

fun vec3_y :: "vec3 \<Rightarrow> GLfloat" where
  "vec3_y (vec3 a b c) = b"

fun vec3_z :: "vec3 \<Rightarrow> GLfloat" where
  "vec3_z (vec3 a b c) = c"

definition setGlobalWorkSize ::
  "(GLfloat \<Rightarrow> size_t) \<Rightarrow> vec3 \<Rightarrow> 'a ComputeShader_scheme \<Rightarrow> 'a ComputeShader_scheme" where
  "setGlobalWorkSize unspecified globalSize cs =
     cs\<lparr>globalWorkSize :=
          (size_t_of_float unspecified (vec3_x globalSize),
           size_t_of_float unspecified (vec3_y globalSize),
           size_t_of_float unspecified (vec3_z globalSize))\<rparr>"

text \<open>
  When a stored component is what the claim says. \<open>holds_value\<close>: the stored number is the
  float's value. \<open>fits_size_t\<close>: the float is finite and its value lies strictly between
  \<open>-1\<close> and \<open>2 ^ 64\<close>, so that the truncated value is a \<open>size_t\<close>. \<open>holds_truncation\<close>: the
  stored number is the value with its fraction discarded.
\<close>

definition holds_value :: "size_t \<Rightarrow> GLfloat \<Rightarrow> bool" where
  "holds_value t f \<longleftrightarrow> uint t * 2 ^ 149 = float_scaled f"

definition fits_size_t :: "GLfloat \<Rightarrow> bool" where
  "fits_size_t f \<longleftrightarrow>
     float_finite f \<and> - (2 ^ 149) < float_scaled f \<and> float_scaled f < 2 ^ 64 * 2 ^ 149"

definition holds_truncation :: "size_t \<Rightarrow> GLfloat \<Rightarrow> bool" where
  "holds_truncation t f \<longleftrightarrow>
     uint t * 2 ^ 149 \<le> max 0 (float_scaled f) \<and> max 0 (float_scaled f) < (uint t + 1) * 2 ^ 149"

text \<open>Modelled from the spec: a failed bind is logged and returned, and leaves the resource in
  its previous state.
\<close>

definition rejected :: "cl_error \<Rightarrow> cl_session \<Rightarrow> (cl_error + int) \<times> cl_session" where
  "rejected e s = (Inl e, s\<lparr>diagnostics := diagnostics s @ [e]\<rparr>)"

text \<open>Modelled from the spec: the image object bound at an index is released and leaves the
  image table.
\<close>

definition release_bound :: "int \<Rightarrow> cl_session \<Rightarrow> cl_session" where
  "release_bound idx s =
     (case argument_images s idx of
        None \<Rightarrow> s
      | Some old \<Rightarrow> s\<lparr>image_objects := remove1 old (image_objects s),
                     argument_images := (argument_images s)(idx := None),
                     released := released s @ [old]\<rparr>)"

text \<open>Modelled from the spec: the body shared by the six image-binding functions, which is not
  in the header. The index must be within the kernel's arguments, the texture must wrap,
  and the table must have room; then the image bound at the index before is released, the
  new image object is stored in the table and set as the argument, and the argument slot
  is the result.
\<close>

definition bindImage ::
  "cl_platform \<Rightarrow> access_mode \<Rightarrow> dimensionality \<Rightarrow> int \<Rightarrow> int \<Rightarrow> cl_session \<Rightarrow>
   (cl_error + int) \<times> cl_session" where
  "bindImage env acc dim idx textureID s =
     (if idx < 0 \<or> int (kernel_arg_count env) \<le> idx then rejected ArgumentIndexOutOfRange s
      else if \<not> wrappable env textureID then rejected ImageWrapFailed s
      else if argument_images s idx = None \<and> MAX_IMAGES \<le> length (image_objects s)
      then rejected ImageTableFull s
      else
        (let img = ClImage (next_image s) textureID acc dim;
             s1 = release_bound idx s
         in (Inr idx,
             s1\<lparr>image_objects := image_objects s1 @ [img],
                argument_images := (argument_images s1)(idx \<mapsto> img),
                next_image := Suc (next_image s1)\<rparr>)))"

text \<open>A sequence of binds on one resource, with the result of each.\<close>

type_synonym bind_request = "access_mode \<times> dimensionality \<times> int \<times> int"

fun bind_all :: "cl_platform \<Rightarrow> bind_request list \<Rightarrow> cl_session \<Rightarrow> (cl_error + int) list \<times> cl_session" where
  "bind_all env [] s = ([], s)"
| "bind_all env ((acc, dim, idx, tex) # reqs) s =
     (let r = bindImage env acc dim idx tex s; rs = bind_all env reqs (snd r)
      in (fst r # fst rs, snd rs))"

text \<open>Modelled from the spec: a resource on which nothing was bound yet.\<close>

definition new_session :: cl_session where
  "new_session = \<lparr>shareGroup = 0, cl_program = 0, device_id = 0, cl_context = 0, dispatch_queue = 0,
     command_queue = 0, workgroup_size = 0, kernel = 0, globalWorkSize = (0, 0, 0),
     image_objects = [], dimensions = 3, methodName = None, images = Map.empty,
     argument_images = Map.empty, next_image = 0, released = [], diagnostics = []\<rparr>"

text \<open>
  What a function hands back to its caller: nothing when it is declared \<open>void\<close>, a value
  otherwise.
\<close>

datatype 'a returned_to_caller = Nothing | Value 'a

text \<open>Modelled from the spec: the body of \<open>setWriteImage3DArgument\<close>, a write-only 3D bind.
  The header declares the result a \<open>GLint\<close>; it carries the result of the bind.
\<close>

definition setWriteImage3DArgument ::
  "cl_platform \<Rightarrow> int \<Rightarrow> int \<Rightarrow> cl_session \<Rightarrow> (cl_error + int) returned_to_caller \<times> cl_session" where
  "setWriteImage3DArgument env idx textureID s =
     (let r = bindImage env WriteOnly Dim3D idx textureID s in (Value (fst r), snd r))"

text \<open>Modelled from the spec: the body of \<open>setReadImage3DArgument\<close>, a read-only 3D bind.
  The header declares the result a \<open>GLint\<close>; it carries the result of the bind.
\<close>

definition setReadImage3DArgument ::
  "cl_platform \<Rightarrow> int \<Rightarrow> int \<Rightarrow> cl_session \<Rightarrow> (cl_error + int) returned_to_caller \<times> cl_session" where
  "setReadImage3DArgument env idx textureID s =
     (let r = bindImage env ReadOnly Dim3D idx textureID s in (Value (fst r), snd r))"

text \<open>Modelled from the spec: the body of \<open>setReadWriteImage3DArgument\<close>, a read-write 3D
  bind. The header declares the result a \<open>GLint\<close>; it carries the result of the bind.
\<close>

definition setReadWriteImage3DArgument ::
  "cl_platform \<Rightarrow> int \<Rightarrow> int \<Rightarrow> cl_session \<Rightarrow> (cl_error + int) returned_to_caller \<times> cl_session" where
  "setReadWriteImage3DArgument env idx textureID s =
     (let r = bindImage env ReadWrite Dim3D idx textureID s in (Value (fst r), snd r))"

text \<open>Modelled from the spec: the body of \<open>setWriteImage2DArgument\<close>, a write-only 2D bind.
  The header declares it \<open>void\<close>: the result of the bind does not reach the caller.
\<close>

definition setWriteImage2DArgument ::
  "cl_platform \<Rightarrow> int \<Rightarrow> int \<Rightarrow> cl_session \<Rightarrow> (cl_error + int) returned_to_caller \<times> cl_session" where
  "setWriteImage2DArgument env idx textureID s =
     (let r = bindImage env WriteOnly Dim2D idx textureID s in (Nothing, snd r))"

text \<open>Modelled from the spec: the body of \<open>setReadImage2DArgument\<close>, a read-only 2D bind.
  The header declares it \<open>void\<close>: the result of the bind does not reach the caller.
\<close>

definition setReadImage2DArgument ::
  "cl_platform \<Rightarrow> int \<Rightarrow> int \<Rightarrow> cl_session \<Rightarrow> (cl_error + int) returned_to_caller \<times> cl_session" where
  "setReadImage2DArgument env idx textureID s =
     (let r = bindImage env ReadOnly Dim2D idx textureID s in (Nothing, snd r))"

text \<open>Modelled from the spec: the body of \<open>setReadWriteImage2DArgument\<close>, a read-write 2D
  bind. The header declares it \<open>void\<close>: the result of the bind does not reach the caller.
\<close>

definition setReadWriteImage2DArgument ::
  "cl_platform \<Rightarrow> int \<Rightarrow> int \<Rightarrow> cl_session \<Rightarrow> (cl_error + int) returned_to_caller \<times> cl_session" where
  "setReadWriteImage2DArgument env idx textureID s =
     (let r = bindImage env ReadWrite Dim2D idx textureID s in (Nothing, snd r))"

text \<open>Modelled from the spec: the device acquisitions \<open>init\<close> makes, in order.\<close>

datatype device_attempt = AttemptGPU | AttemptCPU

text \<open>Modelled from the spec: the body of \<open>obtainGPUDevice\<close>, declared in the header. It
  reports whether a GPU device was obtained and keeps the device.
\<close>

definition obtainGPUDevice :: "cl_platform \<Rightarrow> cl_session \<Rightarrow> bool \<times> cl_session" where
  "obtainGPUDevice env s =
     (case gpu_device env of None \<Rightarrow> (False, s) | Some d \<Rightarrow> (True, s\<lparr>device_id := d\<rparr>))"

text \<open>Modelled from the spec: the body of \<open>obtainCPUDevice\<close>, declared in the header. It
  reports whether a CPU device was obtained and keeps the device.
\<close>

definition obtainCPUDevice :: "cl_platform \<Rightarrow> cl_session \<Rightarrow> bool \<times> cl_session" where
  "obtainCPUDevice env s =
     (case cpu_device env of None \<Rightarrow> (False, s) | Some d \<Rightarrow> (True, s\<lparr>device_id := d\<rparr>))"

text \<open>Modelled from the spec: the compute context is built on the obtained device with the
  interop extension; a device that does not support it is a construction failure.
\<close>

definition build_context :: "cl_platform \<Rightarrow> cl_session \<Rightarrow> bool \<times> cl_session" where
  "build_context env s =
     (if sharing_supported env (device_id s)
      then (True, s\<lparr>cl_context := new_context env\<rparr>)
      else (False, s\<lparr>diagnostics := diagnostics s @ [ContextCreationFailed]\<rparr>))"

text \<open>Modelled from the spec: the body of \<open>init\<close>, declared in the header. The GPU is
  tried first and the CPU only when the GPU is not obtained; with no device the failure is
  \<open>DeviceNotFound\<close>, otherwise the context is built.
\<close>

definition init :: "cl_platform \<Rightarrow> cl_session \<Rightarrow> device_attempt list \<times> bool \<times> cl_session" where
  "init env s =
     (let gpu = obtainGPUDevice env s in
      if fst gpu then ([AttemptGPU], build_context env (snd gpu))
      else
        (let cpu = obtainCPUDevice env (snd gpu) in
         if fst cpu then ([AttemptGPU, AttemptCPU], build_context env (snd cpu))
         else ([AttemptGPU, AttemptCPU],
               False, (snd cpu)\<lparr>diagnostics := diagnostics (snd cpu) @ [DeviceNotFound]\<rparr>)))"

text \<open>
  What holds of every resource reached by binds: no handle is both live and released or
  released twice, every image object created so far is live or released, the table holds
  exactly the bound image objects, no image object is bound at two indices, and the table
  is within its capacity.
\<close>

definition consistent :: "cl_session \<Rightarrow> bool" where
  "consistent s \<longleftrightarrow>
     distinct (map handle (image_objects s @ released s)) \<and>
     handle ` set (image_objects s @ released s) = {..<next_image s} \<and>
     set (image_objects s) = ran (argument_images s) \<and>
     inj_on (argument_images s) (dom (argument_images s)) \<and>
     length (image_objects s) \<le> MAX_IMAGES"

definition request_ok :: "cl_platform \<Rightarrow> bind_request \<Rightarrow> bool" where
  "request_ok env r \<longleftrightarrow>
     (case r of (acc, dim, idx, tex) \<Rightarrow> 0 \<le> idx \<and> idx < int (kernel_arg_count env) \<and> wrappable env tex)"

definition request_index :: "bind_request \<Rightarrow> int" where
  "request_index r = (case r of (acc, dim, idx, tex) \<Rightarrow> idx)"



section \<open>Concrete inputs\<close>

text \<open>
  A program with the single uniform \<open>k\<close> at location 5, a program whose only light
  uniform is the colour of light 2, a Commands object of a material on program 3, shaders
  of four stages, a platform that converts an out-of-range float modulo \<open>2 ^ 64\<close>, three
  compute platforms and ten binds at ten indices.
\<close>

definition gl0 :: uniform_table where
  "gl0 p n = (if p = 3 \<and> n = ''k'' then 5 else - 1)"

definition c0 :: Commands where
  "c0 = \<lparr>material = \<lparr>name = ''basic'', program = 3\<rparr>, textureUnits = 9\<rparr>"

definition gl1 :: uniform_table where
  "gl1 p n = (if n = ''pointLights[2].color'' then 4 else - 1)"

definition light2 :: PointLight where
  "light2 = \<lparr>index = 2, position = vec3 1 2 3, color = vec3 4 5 6\<rparr>"







definition wraps_modulo :: "GLfloat \<Rightarrow> size_t" where
  "wraps_modulo f = word_of_int (float_truncated f)"

definition env0 :: cl_platform where
  "env0 = \<lparr>gpu_device = Some 1, cpu_device = Some 2, sharing_supported = (\<lambda>d. True),
            new_context = 7, kernel_arg_count = 16, wrappable = (\<lambda>t. 0 < t)\<rparr>"

definition env1 :: cl_platform where
  "env1 = \<lparr>gpu_device = Some 1, cpu_device = Some 2, sharing_supported = (\<lambda>d. False),
            new_context = 7, kernel_arg_count = 16, wrappable = (\<lambda>t. 0 < t)\<rparr>"

definition env2 :: cl_platform where
  "env2 = \<lparr>gpu_device = None, cpu_device = Some 2, sharing_supported = (\<lambda>d. True),
            new_context = 7, kernel_arg_count = 16, wrappable = (\<lambda>t. 0 < t)\<rparr>"

definition ten_requests :: "bind_request list" where
  "ten_requests =
     [(WriteOnly, Dim3D, 0, 100), (ReadOnly, Dim3D, 1, 101), (ReadWrite, Dim3D, 2, 102),
      (WriteOnly, Dim2D, 3, 103), (ReadOnly, Dim2D, 4, 104), (ReadWrite, Dim2D, 5, 105),
      (WriteOnly, Dim3D, 6, 106), (ReadOnly, Dim3D, 7, 107), (ReadWrite, Dim3D, 8, 108),
      (WriteOnly, Dim3D, 9, 109)]"


section \<open>The upload pass\<close>

lemma sint_small: "n \<le> 35661 \<Longrightarrow> sint (of_nat n :: 32 word) = int n"
proof -
  assume a: "n \<le> 35661"
  have "(of_nat n :: 32 word) = word_of_int (int n)" by simp
  then have "sint (of_nat n :: 32 word) = signed_take_bit 31 (int n)"
    by (simp only: sint_sbintrunc') simp
  also have "\<dots> = int n"
    using a by (intro signed_take_bit_int_eq_self) auto
  finally show ?thesis .
qed

lemma sint_max: "sint GL_MAX_COMBINED_TEXTURE_IMAGE_UNITS = 35661"
  by (simp add: GL_MAX_COMBINED_TEXTURE_IMAGE_UNITS_def)

lemma unat_max: "unat GL_MAX_COMBINED_TEXTURE_IMAGE_UNITS = 35661"
  by (simp add: GL_MAX_COMBINED_TEXTURE_IMAGE_UNITS_def)

lemmas upload_defs =
  SetParameteri_def SetParameterui_def SetParameterf_def SetParameterv4_def
  SetParameterv3_def SetParameterv2_def SetParamatermat4_def SetParameterBool_def
  SetParameterSampler2D_def SetParameterSampler3D_def ActivateTexture2D_def
  ActivateTexture3D_def SetPointLight_def returned_def

lemma typed_upload_returns:
  assumes "getType s \<in> eleven_types"
    and "is_sampler s \<longrightarrow> sint (textureUnits c) < sint GL_MAX_COMBINED_TEXTURE_IMAGE_UNITS"
  shows "\<exists>r. snd (typed_upload gl c s nm) = Inr r"
  using assms by (cases s) (simp_all add: eleven_types_def is_sampler_def upload_defs Let_def)

lemma setValue_returns:
  assumes "getType s \<in> eleven_types"
    and "is_sampler s \<longrightarrow> sint (textureUnits c) < sint GL_MAX_COMBINED_TEXTURE_IMAGE_UNITS"
  shows "snd (setValue gl c s nm) = Inr ()"
proof -
  obtain r where "snd (typed_upload gl c s nm) = Inr r"
    using typed_upload_returns [OF assms] by blast
  moreover have "getType s \<noteq> NONE"
    using assms(1) by (auto simp: eleven_types_def)
  ultimately show ?thesis
    by (cases "typed_upload gl c s nm") (simp add: setValue_def)
qed

lemma upload_loop_append:
  assumes "\<forall>e \<in> set pre. getType (snd e) \<in> eleven_types"
    and "u + sampler_count pre \<le> 35661"
    and "textureUnits c = of_nat u"
  shows "upload_loop gl c (pre @ rest) =
     (fst (upload_loop gl c pre) @
        fst (upload_loop gl (c\<lparr>textureUnits := of_nat (u + sampler_count pre)\<rparr>) rest),
      snd (upload_loop gl (c\<lparr>textureUnits := of_nat (u + sampler_count pre)\<rparr>) rest))"
  using assms
proof (induction pre arbitrary: c u)
  case Nil
  have "c\<lparr>textureUnits := of_nat u\<rparr> = c"
    using Nil(3) [symmetric] by simp
  then show ?case by (simp add: sampler_count_def)
next
  case (Cons e pre)
  obtain nm s where e: "e = (nm, s)" by (cases e)
  let ?d = "if is_sampler s then 1 else 0 :: nat"
  have cnt: "sampler_count (e # pre) = ?d + sampler_count pre"
    by (simp add: sampler_count_def e)
  have ty: "getType s \<in> eleven_types" using Cons.prems(1) e by simp
  have unit: "is_sampler s \<longrightarrow> sint (textureUnits c) < sint GL_MAX_COMBINED_TEXTURE_IMAGE_UNITS"
    using Cons.prems(2,3) cnt by (auto simp: sint_max sint_small)
  have sv: "snd (setValue gl c s nm) = Inr ()"
    by (rule setValue_returns [OF ty unit])
  let ?c' = "c\<lparr>textureUnits := textureUnits c + (if is_sampler s then 1 else 0)\<rparr>"
  have tu: "textureUnits ?c' = of_nat (u + ?d)"
    using Cons.prems(3) by simp
  have ih: "upload_loop gl ?c' (pre @ rest) =
     (fst (upload_loop gl ?c' pre) @
        fst (upload_loop gl (?c'\<lparr>textureUnits := of_nat ((u + ?d) + sampler_count pre)\<rparr>) rest),
      snd (upload_loop gl (?c'\<lparr>textureUnits := of_nat ((u + ?d) + sampler_count pre)\<rparr>) rest))"
    apply (rule Cons.IH [OF _ _ tu])
    using Cons.prems(1,2) cnt by auto
  have eq: "(u + ?d) + sampler_count pre = u + sampler_count (e # pre)"
    using cnt by simp
  show ?case
    using sv ih unfolding eq
    by (cases "setValue gl c s nm") (simp add: e Let_def)
qed

lemma uploadParameters_calls:
  "fst (uploadParameters gl c g) = fst (upload_loop gl (c\<lparr>textureUnits := 0\<rparr>) g)"
  by (simp add: uploadParameters_def split: prod.splits sum.splits)

lemma accepted_snoc:
  assumes "accepted (pre @ [(nm, s)])"
  shows "\<forall>e \<in> set pre. getType (snd e) \<in> eleven_types"
    and "getType s \<in> eleven_types"
    and "sampler_count pre + (if is_sampler s then 1 else 0) \<le> 35661"
  using assms by (auto simp: accepted_def sampler_count_def unat_max)

lemma pass_reaches_entry:
  assumes "accepted (pre @ [(nm, s)])"
  shows "upload_loop gl (c\<lparr>textureUnits := 0\<rparr>) (pre @ (nm, s) # post) =
     (fst (upload_loop gl (c\<lparr>textureUnits := 0\<rparr>) pre) @
        GlError # fst (setValue gl (c\<lparr>textureUnits := of_nat (sampler_count pre)\<rparr>) s nm) @
        GlError # fst (upload_loop gl
          (c\<lparr>textureUnits := of_nat (sampler_count pre) + (if is_sampler s then 1 else 0)\<rparr>) post),
      snd (upload_loop gl
          (c\<lparr>textureUnits := of_nat (sampler_count pre) + (if is_sampler s then 1 else 0)\<rparr>) post))"
proof -
  note a = accepted_snoc [OF assms]
  let ?c0 = "c\<lparr>textureUnits := 0\<rparr>"
  let ?ck = "c\<lparr>textureUnits := of_nat (sampler_count pre)\<rparr>"
  have le: "0 + sampler_count pre \<le> 35661" using a(3) by (simp split: if_splits)
  have app: "upload_loop gl ?c0 (pre @ (nm, s) # post) =
     (fst (upload_loop gl ?c0 pre) @ fst (upload_loop gl ?ck ((nm, s) # post)),
      snd (upload_loop gl ?ck ((nm, s) # post)))"
    using upload_loop_append [OF a(1) le, of ?c0 gl "(nm, s) # post"] by simp
  have unit: "is_sampler s \<longrightarrow> sint (textureUnits ?ck) < sint GL_MAX_COMBINED_TEXTURE_IMAGE_UNITS"
    using a(3) by (auto simp: sint_max sint_small)
  have sv: "snd (setValue gl ?ck s nm) = Inr ()"
    by (rule setValue_returns [OF a(2) unit])
  show ?thesis
    unfolding app using sv
    by (cases "setValue gl ?ck s nm") (simp add: Let_def)
qed


lemma SetPointLight_exact:
  "SetPointLight gl c nm l =
     (light_upload gl (program (material c)) (index l) (position l) (color l),
      reported_location gl (program (material c)) nm (PointLightParam l))"
proof -
  obtain x y z where p: "position l = vec3 x y z" by (cases "position l")
  obtain r g b where q: "color l = vec3 r g b" by (cases "color l")
  show ?thesis
    by (simp add: SetPointLight_def position_name_def color_name_def Let_def p q)
qed

lemma typed_upload_exact:
  assumes "getType s \<in> eleven_types"
    and "is_sampler s \<longrightarrow> sint (textureUnits c) < sint GL_MAX_COMBINED_TEXTURE_IMAGE_UNITS"
  shows "typed_upload gl c s nm =
     (upload_by_type gl (program (material c)) (textureUnits c) nm s,
      Inr (reported_location gl (program (material c)) nm s))"
proof (cases "(gl, program (material c), textureUnits c, nm, s)" rule: upload_by_type.cases)
  case (11 gl' p' u' nm' l)
  then show ?thesis by (simp add: returned_def SetPointLight_exact)
qed (use assms in \<open>simp_all add: upload_defs Let_def eleven_types_def is_sampler_def
      GL_TEXTURE0_def GL_TEXTURE_2D_def GL_TEXTURE_3D_def\<close>)

lemma setValue_exact:
  assumes "getType s \<in> eleven_types"
    and "is_sampler s \<longrightarrow> sint (textureUnits c) < sint GL_MAX_COMBINED_TEXTURE_IMAGE_UNITS"
  shows "setValue gl c s nm =
     (GlError # upload_by_type gl (program (material c)) (textureUnits c) nm s @
        GlError # (if reported_location gl (program (material c)) nm s = - 1
                   then [Printf (''WARNING: parameter '' @ nm @ '' was not found for material '' @
                        name (material c) @ [CHR 0x0A])]
                   else []),
      Inr ())"
proof -
  have "getType s \<noteq> NONE" using assms(1) by (auto simp: eleven_types_def)
  then show ?thesis
    by (simp add: setValue_def typed_upload_exact [OF assms] warning_def)
qed

lemma upload_by_type_length:
  "getType s \<in> eleven_types \<Longrightarrow> 2 \<le> length (upload_by_type gl p u nm s)"
proof (cases "(gl, p, u, nm, s)" rule: upload_by_type.cases)
  case (11 gl' p' u' nm' l)
  obtain x y z where a: "position l = vec3 x y z" by (cases "position l")
  obtain r g b where b: "color l = vec3 r g b" by (cases "color l")
  show ?thesis using 11 by (simp add: a b)
qed (simp_all add: eleven_types_def)

lemma accepted_pass_returns:
  assumes "accepted g"
  shows "snd (uploadParameters gl c g) = Inr (c\<lparr>textureUnits := 0\<rparr>)"
proof -
  have a: "\<forall>e \<in> set g. getType (snd e) \<in> eleven_types" "0 + sampler_count g \<le> 35661"
    using assms by (auto simp: accepted_def unat_max)
  have "upload_loop gl (c\<lparr>textureUnits := 0\<rparr>) (g @ []) =
     (fst (upload_loop gl (c\<lparr>textureUnits := 0\<rparr>) g) @
        fst (upload_loop gl (c\<lparr>textureUnits := 0, textureUnits := of_nat (0 + sampler_count g)\<rparr>) []),
      snd (upload_loop gl (c\<lparr>textureUnits := 0, textureUnits := of_nat (0 + sampler_count g)\<rparr>) []))"
    by (rule upload_loop_append [OF a]) simp
  then have "upload_loop gl (c\<lparr>textureUnits := 0\<rparr>) g =
     (fst (upload_loop gl (c\<lparr>textureUnits := 0\<rparr>) g),
      Inr (c\<lparr>textureUnits := of_nat (sampler_count g)\<rparr>))"
    by simp
  then show ?thesis
    by (cases "upload_loop gl (c\<lparr>textureUnits := 0\<rparr>) g") (simp add: uploadParameters_def)
qed

lemma pass_through_entry:
  assumes "accepted (pre @ [(nm, s)])" and "p = program (material c)"
    and "k = of_nat (sampler_count pre)"
  shows "fst (uploadParameters gl c (pre @ (nm, s) # post)) =
           fst (uploadParameters gl c pre) @ GlError # GlError # upload_by_type gl p k nm s @
           GlError # (if reported_location gl p nm s = - 1
                      then [Printf (''WARNING: parameter '' @ nm @ '' was not found for material '' @
                        name (material c) @ [CHR 0x0A])]
                      else []) @
           GlError # fst (upload_loop gl (c\<lparr>textureUnits := k + (if is_sampler s then 1 else 0)\<rparr>) post)"
    and "snd (uploadParameters gl c (pre @ (nm, s) # post)) =
           (case snd (upload_loop gl (c\<lparr>textureUnits := k + (if is_sampler s then 1 else 0)\<rparr>) post) of
              Inl f \<Rightarrow> Inl f
            | Inr c' \<Rightarrow> Inr (c'\<lparr>textureUnits := 0\<rparr>))"
proof -
  note a = accepted_snoc [OF assms(1)]
  let ?ck = "c\<lparr>textureUnits := k\<rparr>"
  have unit: "is_sampler s \<longrightarrow> sint (textureUnits ?ck) < sint GL_MAX_COMBINED_TEXTURE_IMAGE_UNITS"
    using a(3) by (auto simp: assms(3) sint_max sint_small)
  have sv: "fst (setValue gl ?ck s nm) =
     GlError # upload_by_type gl p k nm s @
        GlError # (if reported_location gl p nm s = - 1
                   then [Printf (''WARNING: parameter '' @ nm @ '' was not found for material '' @
                        name (material c) @ [CHR 0x0A])]
                   else [])"
    by (simp add: setValue_exact [OF a(2) unit] assms(2))
  note r = pass_reaches_entry [OF assms(1), of gl c post, folded assms(3)]
  show "fst (uploadParameters gl c (pre @ (nm, s) # post)) =
           fst (uploadParameters gl c pre) @ GlError # GlError # upload_by_type gl p k nm s @
           GlError # (if reported_location gl p nm s = - 1
                      then [Printf (''WARNING: parameter '' @ nm @ '' was not found for material '' @
                        name (material c) @ [CHR 0x0A])]
                      else []) @
           GlError # fst (upload_loop gl (c\<lparr>textureUnits := k + (if is_sampler s then 1 else 0)\<rparr>) post)"
    by (simp add: uploadParameters_calls r sv)
  show "snd (uploadParameters gl c (pre @ (nm, s) # post)) =
           (case snd (upload_loop gl (c\<lparr>textureUnits := k + (if is_sampler s then 1 else 0)\<rparr>) post) of
              Inl f \<Rightarrow> Inl f
            | Inr c' \<Rightarrow> Inr (c'\<lparr>textureUnits := 0\<rparr>))"
    unfolding uploadParameters_def r
    by (cases "snd (upload_loop gl (c\<lparr>textureUnits := k + (if is_sampler s then 1 else 0)\<rparr>) post)")
      simp_all
qed

lemma digit_cases: "n < 10 \<Longrightarrow> n \<in> {0, 1, 2, 3, 4, 5, 6, 7, 8, 9 :: nat}"
  by auto

lemma digit_value_nth: "n < 10 \<Longrightarrow> digit_value (''0123456789'' ! n) = n"
  using digit_cases [of n] by (auto simp: digit_value_def)

lemma digit_nth_in: "n < 10 \<Longrightarrow> ''0123456789'' ! n \<in> set ''0123456789''"
  using digit_cases [of n] by auto

lemma digit_nth_zero: "n < 10 \<Longrightarrow> (''0123456789'' ! n = CHR ''0'') = (n = 0)"
  using digit_cases [of n] by auto

lemma digit_nth_not_minus: "n < 10 \<Longrightarrow> ''0123456789'' ! n \<noteq> CHR ''-''"
  using digit_cases [of n] by auto

lemma string_of_nat_nonempty: "string_of_nat n \<noteq> []"
  by (induction n rule: string_of_nat.induct) (subst string_of_nat.simps, simp)

lemma nat_of_decimal_snoc: "nat_of_decimal (ds @ [ch]) = 10 * nat_of_decimal ds + digit_value ch"
  by (simp add: nat_of_decimal_def)

lemma nat_of_decimal_string_of_nat: "nat_of_decimal (string_of_nat n) = n"
proof (induction n rule: string_of_nat.induct)
  case (1 n)
  show ?case
  proof (cases "n < 10")
    case True
    then show ?thesis
      by (subst string_of_nat.simps) (simp add: nat_of_decimal_def digit_value_nth)
  next
    case False
    then have "nat_of_decimal (string_of_nat (n div 10)) = n div 10" using 1 by simp
    then show ?thesis
      using False
      by (subst string_of_nat.simps)
        (simp add: nat_of_decimal_snoc digit_value_nth del: string_of_nat.simps)
  qed
qed

lemma string_of_nat_digits: "ch \<in> set (string_of_nat n) \<Longrightarrow> ch \<in> set ''0123456789''"
proof (induction n rule: string_of_nat.induct)
  case (1 n)
  show ?case
  proof (cases "n < 10")
    case True
    then have "string_of_nat n = [''0123456789'' ! n]" by (subst string_of_nat.simps) simp
    then show ?thesis using 1(2) digit_nth_in [OF True] by (simp del: string_of_nat.simps)
  next
    case False
    then have s: "string_of_nat n = string_of_nat (n div 10) @ [''0123456789'' ! (n mod 10)]"
      by (subst string_of_nat.simps) simp
    have "n mod 10 < 10" by simp
    then show ?thesis
      using 1 False digit_nth_in [of "n mod 10"] unfolding s
      by (auto simp del: string_of_nat.simps)
  qed
qed

lemma string_of_nat_hd: "(hd (string_of_nat n) = CHR ''0'') = (n = 0)"
proof (induction n rule: string_of_nat.induct)
  case (1 n)
  show ?case
  proof (cases "n < 10")
    case True
    then have "string_of_nat n = [''0123456789'' ! n]" by (subst string_of_nat.simps) simp
    then show ?thesis using digit_nth_zero [OF True] by (simp del: string_of_nat.simps)
  next
    case False
    then have s: "string_of_nat n = string_of_nat (n div 10) @ [''0123456789'' ! (n mod 10)]"
      by (subst string_of_nat.simps) simp
    have "hd (string_of_nat n) = hd (string_of_nat (n div 10))"
      unfolding s using string_of_nat_nonempty by (simp del: string_of_nat.simps)
    moreover have "n div 10 \<noteq> 0" using False by simp
    ultimately show ?thesis using 1 False by (simp del: string_of_nat.simps)
  qed
qed

lemma string_of_nat_zero: "string_of_nat 0 = ''0''"
  by simp

lemma plain_decimal_string_of_nat: "plain_decimal (string_of_nat n)"
  unfolding plain_decimal_def
  using string_of_nat_nonempty [of n] string_of_nat_digits [of _ n] string_of_nat_hd [of n]
  by (auto simp add: string_of_nat_zero simp del: string_of_nat.simps)

lemma string_of_nat_not_minus: "hd (string_of_nat n) \<noteq> CHR ''-''"
proof -
  have "hd (string_of_nat n) \<in> set (string_of_nat n)"
    using string_of_nat_nonempty by (simp del: string_of_nat.simps)
  then have "hd (string_of_nat n) \<in> set ''0123456789''" by (rule string_of_nat_digits)
  then show ?thesis by (auto simp del: string_of_nat.simps)
qed

lemma to_string_decimal: "int_of_decimal (to_string i) = i \<and> signed_decimal (to_string i)"
proof (cases "i < 0")
  case True
  have "string_of_nat (nat (- i)) \<noteq> ''0''"
  proof
    assume "string_of_nat (nat (- i)) = ''0''"
    then have "hd (string_of_nat (nat (- i))) = CHR ''0''" by simp
    then show False using True by (simp add: string_of_nat_hd del: string_of_nat.simps)
  qed
  then show ?thesis
    using True
    by (simp add: to_string_def nat_of_decimal_string_of_nat plain_decimal_string_of_nat
        del: string_of_nat.simps)
next
  case False
  obtain ch ds where s: "string_of_nat (nat i) = ch # ds"
    using string_of_nat_nonempty [of "nat i"]
    by (cases "string_of_nat (nat i)") (auto simp del: string_of_nat.simps)
  have m: "ch \<noteq> CHR ''-''" using string_of_nat_not_minus [of "nat i"] s by simp
  have "nat_of_decimal (ch # ds) = nat i" "plain_decimal (ch # ds)"
    using nat_of_decimal_string_of_nat [of "nat i"] plain_decimal_string_of_nat [of "nat i"]
    unfolding s by (simp_all del: string_of_nat.simps)
  then show ?thesis
    using False m by (simp add: to_string_def s del: string_of_nat.simps)
qed


text \<open>
  Claim C1, as amended. In a pass over a group, every entry of one of the eleven types that
  the pass reaches (the entries up to it are accepted) makes, right after the calls of the
  entries before it, the calls of its type: for the ten types other than a point light
  the location is looked up under the entry's name in the material's program and the
  upload call of the type follows with that location and the entry's value; a point
  light is looked up under \<open>pointLights[index].position\<close> and \<open>pointLights[index].color\<close>,
  where \<open>index\<close> is printed as its decimal numeral, and its position and colour are
  uploaded.
\<close>

theorem uploadParameters_uploads_reached_entries:
  assumes "accepted (pre @ [(nm, s)])" and "p = program (material c)"
    and "k = of_nat (sampler_count pre)"
  shows "(\<exists>after. fst (uploadParameters gl c (pre @ (nm, s) # post)) =
            fst (uploadParameters gl c pre) @ GlError # GlError # upload_by_type gl p k nm s @
            GlError # after)
         \<and> 2 \<le> length (upload_by_type gl p k nm s)
         \<and> int_of_decimal (to_string i) = i \<and> signed_decimal (to_string i)"
proof -
  have "\<exists>after. fst (uploadParameters gl c (pre @ (nm, s) # post)) =
            fst (uploadParameters gl c pre) @ GlError # GlError # upload_by_type gl p k nm s @
            GlError # after"
    unfolding pass_through_entry(1) [OF assms] by simp
  moreover have "2 \<le> length (upload_by_type gl p k nm s)"
    by (rule upload_by_type_length [OF accepted_snoc(2) [OF assms(1)]])
  ultimately show ?thesis using to_string_decimal [of i] by simp
qed

text \<open>
  Claim C1 as stated fails: the name of a point-light entry is never looked up, and an
  entry that follows an entry of type \<open>NONE\<close> is not uploaded at all.
\<close>

theorem point_light_entry_name_is_not_looked_up:
  "getType (PointLightParam light2) \<in> eleven_types \<and>
   GetUniformLocation 3 ''light'' \<notin>
     set (fst (uploadParameters gl1 c0 [(''light'', PointLightParam light2)])) \<and>
   uploadParameters gl0 c0 [(''a'', NoneParam), (''k'', FloatParam 1)] =
     ([GlError], Inl (AssertionFailed ''setting.getType() != ShaderParameter::Type::NONE''))"
  by (simp add: eleven_types_def uploadParameters_def setValue_def upload_defs position_name_def
      color_name_def to_string_def light2_def gl1_def c0_def Let_def is_sampler_def)

theorem uploadParameters_uploads_reached_entries_witness:
  "accepted ([(''M'', IntParam 4), (''tex'', Sampler2DParam \<lparr>textureID2D = 7\<rparr>)] @
      [(''light'', PointLightParam light2)]) \<and>
   (\<exists>after. fst (uploadParameters gl1 c0
       [(''M'', IntParam 4), (''tex'', Sampler2DParam \<lparr>textureID2D = 7\<rparr>),
        (''light'', PointLightParam light2), (''z'', NoneParam)]) =
      fst (uploadParameters gl1 c0 [(''M'', IntParam 4), (''tex'', Sampler2DParam \<lparr>textureID2D = 7\<rparr>)]) @
      [GlError, GlError, GetUniformLocation 3 ''pointLights[2].position'',
       Uniform3fv (- 1) 1 [1, 2, 3], Uniform3fv (- 1) 1 [4, 5, 6], GlError] @ after) \<and>
   int_of_decimal (to_string (- 305)) = - 305 \<and> to_string (- 305) = ''-305''"
proof -
  have a: "accepted ([(''M'', IntParam 4), (''tex'', Sampler2DParam \<lparr>textureID2D = 7\<rparr>)] @
      [(''light'', PointLightParam light2)])"
    by (simp add: accepted_def eleven_types_def sampler_count_def is_sampler_def unat_max)
  have p: "(3 :: GLuint) = program (material c0)" by (simp add: c0_def)
  have k: "(1 :: GLint) = of_nat (sampler_count [(''M'', IntParam 4), (''tex'', Sampler2DParam \<lparr>textureID2D = 7\<rparr>)])"
    by (simp add: sampler_count_def is_sampler_def)
  have u: "upload_by_type gl1 3 1 ''light'' (PointLightParam light2) =
      [GetUniformLocation 3 ''pointLights[2].position'',
       Uniform3fv (- 1) 1 [1, 2, 3], Uniform3fv (- 1) 1 [4, 5, 6]]"
    by (simp add: light2_def gl1_def to_string_def)
  have t: "to_string (- 305) = ''-305''" by (simp add: to_string_def)
  note th = uploadParameters_uploads_reached_entries [OF a p k, of gl1 "[(''z'', NoneParam)]" "- 305"]
  show ?thesis
    using a th unfolding u t by simp
qed




text \<open>
  Claim C3. When the typed upload of an entry returns location \<open>-1\<close>, \<open>setValue\<close> prints
  the line \<open>WARNING: parameter <name> was not found for material <material>\<close> and returns
  normally, and the loop goes on with the remaining entries. In a pass, an entry that is
  reached and whose location is not found makes its calls, the warning follows, and the
  pass continues with the entries after it: what the pass returns is what the remaining
  entries make of it, and a pass over an accepted group returns normally. The check
  \<open>glError()\<close> is taken to return.
\<close>

theorem unresolved_name_warns_and_continues:
  assumes "c' = c\<lparr>textureUnits := textureUnits c + (if is_sampler s then 1 else 0)\<rparr>"
    and "p = program (material c)" and "k = of_nat (sampler_count pre)"
    and "ck = c\<lparr>textureUnits := k + (if is_sampler s then 1 else 0)\<rparr>"
  shows "(snd (typed_upload gl c s nm) = Inr (- 1) \<longrightarrow>
           setValue gl c s nm =
             (GlError # fst (typed_upload gl c s nm) @
                [GlError, Printf (''WARNING: parameter '' @ nm @ '' was not found for material '' @
                        name (material c) @ [CHR 0x0A])], Inr ())
           \<and> upload_loop gl c ((nm, s) # rest) =
             (GlError # fst (setValue gl c s nm) @ GlError # fst (upload_loop gl c' rest),
              snd (upload_loop gl c' rest)))
         \<and> (accepted (pre @ [(nm, s)]) \<and> reported_location gl p nm s = - 1 \<longrightarrow>
           fst (uploadParameters gl c (pre @ (nm, s) # post)) =
             fst (uploadParameters gl c pre) @ GlError # GlError # upload_by_type gl p k nm s @
             [GlError, Printf (''WARNING: parameter '' @ nm @ '' was not found for material '' @
                        name (material c) @ [CHR 0x0A]), GlError] @
             fst (upload_loop gl ck post)
           \<and> snd (uploadParameters gl c (pre @ (nm, s) # post)) =
             (case snd (upload_loop gl ck post) of
                Inl f \<Rightarrow> Inl f
              | Inr c'' \<Rightarrow> Inr (c''\<lparr>textureUnits := 0\<rparr>))
           \<and> (accepted (pre @ (nm, s) # post) \<longrightarrow>
                snd (uploadParameters gl c (pre @ (nm, s) # post)) = Inr (c\<lparr>textureUnits := 0\<rparr>)))"
proof -
  have A: "setValue gl c s nm =
             (GlError # fst (typed_upload gl c s nm) @
                [GlError, Printf (''WARNING: parameter '' @ nm @ '' was not found for material '' @
                        name (material c) @ [CHR 0x0A])], Inr ())
           \<and> upload_loop gl c ((nm, s) # rest) =
             (GlError # fst (setValue gl c s nm) @ GlError # fst (upload_loop gl c' rest),
              snd (upload_loop gl c' rest))"
    if h: "snd (typed_upload gl c s nm) = Inr (- 1)"
  proof -
    have ne: "getType s \<noteq> NONE"
      using h by (cases s) simp_all
    have sv: "setValue gl c s nm =
             (GlError # fst (typed_upload gl c s nm) @
                [GlError, Printf (''WARNING: parameter '' @ nm @ '' was not found for material '' @
                        name (material c) @ [CHR 0x0A])], Inr ())"
      using h ne by (cases "typed_upload gl c s nm") (simp add: setValue_def warning_def)
    have "upload_loop gl c ((nm, s) # rest) =
             (GlError # fst (setValue gl c s nm) @ GlError # fst (upload_loop gl c' rest),
              snd (upload_loop gl c' rest))"
      unfolding sv assms(1) by (simp add: sv Let_def)
    with sv show ?thesis by simp
  qed
  have B: "fst (uploadParameters gl c (pre @ (nm, s) # post)) =
             fst (uploadParameters gl c pre) @ GlError # GlError # upload_by_type gl p k nm s @
             [GlError, Printf (''WARNING: parameter '' @ nm @ '' was not found for material '' @
                        name (material c) @ [CHR 0x0A]), GlError] @
             fst (upload_loop gl ck post)
           \<and> snd (uploadParameters gl c (pre @ (nm, s) # post)) =
             (case snd (upload_loop gl ck post) of
                Inl f \<Rightarrow> Inl f
              | Inr c'' \<Rightarrow> Inr (c''\<lparr>textureUnits := 0\<rparr>))"
    if h: "accepted (pre @ [(nm, s)])" "reported_location gl p nm s = - 1"
    using pass_through_entry [OF h(1) assms(2,3), of gl post] h(2)
    unfolding assms(4) by simp
  have C: "snd (uploadParameters gl c (pre @ (nm, s) # post)) = Inr (c\<lparr>textureUnits := 0\<rparr>)"
    if "accepted (pre @ (nm, s) # post)"
    by (rule accepted_pass_returns [OF that])
  show ?thesis using A B C by blast
qed

theorem unresolved_name_warns_and_continues_witness:
  "snd (typed_upload gl0 c0 (FloatParam 2) ''missing'') = Inr (- 1) \<and>
   accepted ([(''k'', IntParam 6)] @ [(''missing'', FloatParam 2)]) \<and>
   gl0 3 ''missing'' = - 1 \<and>
   setValue gl0 c0 (FloatParam 2) ''missing'' =
     ([GlError, GetUniformLocation 3 ''missing'', Uniform1f (- 1) 2, GlError,
       Printf ''WARNING: parameter missing was not found for material basic\<newline>''], Inr ()) \<and>
   uploadParameters gl0 c0 [(''k'', IntParam 6), (''missing'', FloatParam 2), (''k'', IntParam 8)] =
     ([GlError, GlError, GetUniformLocation 3 ''k'', Uniform1i 5 6, GlError, GlError,
       GlError, GlError, GetUniformLocation 3 ''missing'', Uniform1f (- 1) 2, GlError,
       Printf ''WARNING: parameter missing was not found for material basic\<newline>'', GlError,
       GlError, GlError, GetUniformLocation 3 ''k'', Uniform1i 5 8, GlError, GlError],
      Inr (c0\<lparr>textureUnits := 0\<rparr>))"
proof -
  have a: "snd (typed_upload gl0 c0 (FloatParam 2) ''missing'') = Inr (- 1)"
    by (simp add: upload_defs gl0_def c0_def Let_def)
  have acc: "accepted ([(''k'', IntParam 6)] @ [(''missing'', FloatParam 2)])"
    "accepted ([(''k'', IntParam 6)] @ (''missing'', FloatParam 2) # [(''k'', IntParam 8)])"
    by (simp_all add: accepted_def eleven_types_def sampler_count_def is_sampler_def unat_max)
  have g: "gl0 3 ''missing'' = - 1" by (simp add: gl0_def)
  have r: "reported_location gl0 3 ''missing'' (FloatParam 2) = - 1" by (simp add: g)
  have p: "(3 :: GLuint) = program (material c0)" by (simp add: c0_def)
  have m: "name (material c0) = ''basic''" by (simp add: c0_def)
  have k: "(0 :: GLint) = of_nat (sampler_count [(''k'', IntParam 6)])"
    by (simp add: sampler_count_def is_sampler_def)
  have c': "c0 = c0\<lparr>textureUnits := textureUnits c0 + (if is_sampler (FloatParam 2) then 1 else 0)\<rparr>"
    by (simp add: is_sampler_def)
  have ck: "c0\<lparr>textureUnits := 0\<rparr> =
      c0\<lparr>textureUnits := 0 + (if is_sampler (FloatParam 2) then 1 else 0)\<rparr>"
    by (simp add: is_sampler_def)
  note th = unresolved_name_warns_and_continues [OF c' p k ck, of gl0 "''missing''" "[]"
      "[(''k'', IntParam 8)]"]
  have t: "fst (typed_upload gl0 c0 (FloatParam 2) ''missing'') =
      [GetUniformLocation 3 ''missing'', Uniform1f (- 1) 2]"
    by (simp add: upload_defs gl0_def c0_def Let_def)
  have sv: "setValue gl0 c0 (FloatParam 2) ''missing'' =
     ([GlError, GetUniformLocation 3 ''missing'', Uniform1f (- 1) 2, GlError,
       Printf ''WARNING: parameter missing was not found for material basic\<newline>''], Inr ())"
    using th [THEN conjunct1] a unfolding t m by simp
  have pre: "fst (uploadParameters gl0 c0 [(''k'', IntParam 6)]) =
      [GlError, GlError, GetUniformLocation 3 ''k'', Uniform1i 5 6, GlError, GlError]"
    by (simp add: uploadParameters_def setValue_def upload_defs gl0_def c0_def is_sampler_def)
  have post: "fst (upload_loop gl0 (c0\<lparr>textureUnits := 0\<rparr>) [(''k'', IntParam 8)]) =
      [GlError, GlError, GetUniformLocation 3 ''k'', Uniform1i 5 8, GlError, GlError]"
    by (simp add: setValue_def upload_defs gl0_def c0_def is_sampler_def)
  have u: "upload_by_type gl0 3 0 ''missing'' (FloatParam 2) =
      [GetUniformLocation 3 ''missing'', Uniform1f (- 1) 2]"
    by (simp add: g)
  have hyp: "accepted ([(''k'', IntParam 6)] @ [(''missing'', FloatParam 2)]) \<and>
      reported_location gl0 3 ''missing'' (FloatParam 2) = - 1"
    by (rule conjI [OF acc(1) r])
  note B = th [THEN conjunct2, THEN mp, OF hyp]
  have f: "fst (uploadParameters gl0 c0 [(''k'', IntParam 6), (''missing'', FloatParam 2), (''k'', IntParam 8)]) =
     [GlError, GlError, GetUniformLocation 3 ''k'', Uniform1i 5 6, GlError, GlError,
       GlError, GlError, GetUniformLocation 3 ''missing'', Uniform1f (- 1) 2, GlError,
       Printf ''WARNING: parameter missing was not found for material basic\<newline>'', GlError,
       GlError, GlError, GetUniformLocation 3 ''k'', Uniform1i 5 8, GlError, GlError]"
    using B [THEN conjunct1] unfolding pre post u m by simp
  have s: "snd (uploadParameters gl0 c0 [(''k'', IntParam 6), (''missing'', FloatParam 2), (''k'', IntParam 8)]) =
     Inr (c0\<lparr>textureUnits := 0\<rparr>)"
    using B [THEN conjunct2, THEN conjunct2, THEN mp, OF acc(2)] by simp
  have "uploadParameters gl0 c0 [(''k'', IntParam 6), (''missing'', FloatParam 2), (''k'', IntParam 8)] =
     ([GlError, GlError, GetUniformLocation 3 ''k'', Uniform1i 5 6, GlError, GlError,
       GlError, GlError, GetUniformLocation 3 ''missing'', Uniform1f (- 1) 2, GlError,
       Printf ''WARNING: parameter missing was not found for material basic\<newline>'', GlError,
       GlError, GlError, GetUniformLocation 3 ''k'', Uniform1i 5 8, GlError, GlError],
      Inr (c0\<lparr>textureUnits := 0\<rparr>))"
    by (rule prod_eqI) (simp_all only: f s fst_conv snd_conv)
  then show ?thesis using a acc(1) g sv by simp
qed

text \<open>
  Claim C10. \<open>SetPointLight\<close> uploads the position to \<open>pointLights[index].position\<close> and
  the colour to \<open>pointLights[index].color\<close>, where \<open>index\<close> is printed as its decimal
  numeral. When the position is not found the colour location is never queried and the
  colour is written to location \<open>-1\<close>. The line \<open>WARNING: parameter <name> was not found
  for material <material>\<close> is printed by \<open>setValue\<close> exactly when the position or the
  colour is not found.
\<close>

theorem SetPointLight_unresolved_as_a_whole:
  assumes "p = program (material c)"
    and "pn = ''pointLights['' @ to_string (index light) @ ''].position''"
    and "cn = ''pointLights['' @ to_string (index light) @ ''].color''"
    and "P = gl p pn" and "C = gl p cn"
    and "position light = vec3 x y z" and "color light = vec3 r g b"
  shows "fst (SetPointLight gl c nm light) =
           (if P \<noteq> - 1
            then [GetUniformLocation p pn, Uniform3fv P 1 [x, y, z],
                  GetUniformLocation p cn, Uniform3fv C 1 [r, g, b]]
            else [GetUniformLocation p pn, Uniform3fv (- 1) 1 [x, y, z],
                  Uniform3fv (- 1) 1 [r, g, b]])
         \<and> (Printf (''WARNING: parameter '' @ nm @ '' was not found for material '' @
                        name (material c) @ [CHR 0x0A])
              \<in> set (fst (setValue gl c (PointLightParam light) nm))
              \<longleftrightarrow> P = - 1 \<or> C = - 1)
         \<and> (P = - 1 \<longrightarrow> GetUniformLocation p cn \<notin> set (fst (SetPointLight gl c nm light)))
         \<and> snd (setValue gl c (PointLightParam light) nm) = Inr ()
         \<and> int_of_decimal (to_string (index light)) = index light
         \<and> signed_decimal (to_string (index light))"
proof -
  have d: "pn \<noteq> cn" by (simp add: assms(2,3))
  have 1: "fst (SetPointLight gl c nm light) =
           (if P \<noteq> - 1
            then [GetUniformLocation p pn, Uniform3fv P 1 [x, y, z],
                  GetUniformLocation p cn, Uniform3fv C 1 [r, g, b]]
            else [GetUniformLocation p pn, Uniform3fv (- 1) 1 [x, y, z],
                  Uniform3fv (- 1) 1 [r, g, b]])"
    by (simp add: SetPointLight_def position_name_def color_name_def Let_def assms)
  have r: "snd (SetPointLight gl c nm light) = (if P \<noteq> - 1 then C else - 1)"
    by (simp add: SetPointLight_def position_name_def color_name_def Let_def assms)
  have sv: "setValue gl c (PointLightParam light) nm =
     (GlError # fst (SetPointLight gl c nm light) @
        GlError # (if P = - 1 \<or> C = - 1
                   then [Printf (''WARNING: parameter '' @ nm @ '' was not found for material '' @
                        name (material c) @ [CHR 0x0A])]
                   else []), Inr ())"
    using r by (cases "SetPointLight gl c nm light") (auto simp: setValue_def returned_def warning_def)
  have 2: "Printf (''WARNING: parameter '' @ nm @ '' was not found for material '' @
                        name (material c) @ [CHR 0x0A])
              \<in> set (fst (setValue gl c (PointLightParam light) nm))
              \<longleftrightarrow> P = - 1 \<or> C = - 1"
    unfolding sv fst_conv 1 by simp
  have 3: "P = - 1 \<longrightarrow> GetUniformLocation p cn \<notin> set (fst (SetPointLight gl c nm light))"
    unfolding 1 using d by simp
  have 4: "snd (setValue gl c (PointLightParam light) nm) = Inr ()"
    unfolding sv by simp
  show ?thesis
    using 1 2 3 4 to_string_decimal [of "index light"] by simp
qed

theorem SetPointLight_unresolved_as_a_whole_witness:
  "gl1 3 ''pointLights[2].position'' = - 1 \<and> gl1 3 ''pointLights[2].color'' = 4 \<and>
   fst (SetPointLight gl1 c0 ''light'' light2) =
     [GetUniformLocation 3 ''pointLights[2].position'', Uniform3fv (- 1) 1 [1, 2, 3],
      Uniform3fv (- 1) 1 [4, 5, 6]] \<and>
   Printf ''WARNING: parameter light was not found for material basic\<newline>''
     \<in> set (fst (setValue gl1 c0 (PointLightParam light2) ''light'')) \<and>
   GetUniformLocation 3 ''pointLights[2].color'' \<notin> set (fst (SetPointLight gl1 c0 ''light'' light2)) \<and>
   to_string (index light2) = ''2''"
proof -
  have p: "(3 :: GLuint) = program (material c0)" by (simp add: c0_def)
  have t: "to_string (index light2) = ''2''" by (simp add: to_string_def light2_def)
  have pn: "''pointLights[2].position'' = ''pointLights['' @ to_string (index light2) @ ''].position''"
    by (simp add: t)
  have cn: "''pointLights[2].color'' = ''pointLights['' @ to_string (index light2) @ ''].color''"
    by (simp add: t)
  have g: "gl1 3 ''pointLights[2].position'' = - 1" "gl1 3 ''pointLights[2].color'' = 4"
    by (simp_all add: gl1_def)
  have v: "position light2 = vec3 1 2 3" "color light2 = vec3 4 5 6"
    by (simp_all add: light2_def)
  have m: "name (material c0) = ''basic''" by (simp add: c0_def)
  note th = SetPointLight_unresolved_as_a_whole
    [where p = 3 and c = c0 and light = light2 and gl = gl1 and nm = "''light''"
      and pn = "''pointLights[2].position''" and cn = "''pointLights[2].color''"
      and P = "- 1" and C = 4
      and x = 1 and y = 2 and z = 3 and r = 4 and g = 5 and b = 6,
      OF p pn cn g(1) [symmetric] g(2) [symmetric] v]
  show ?thesis
    using th g t unfolding m by simp
qed


section \<open>The constructor of Material\<close>

lemma attached_simps [simp]:
  "attached [] = []"
  "attached (xs @ ys) = attached xs @ attached ys"
  "attached (AttachShader p i # xs) = i # attached xs"
  "attached (CreateProgram # xs) = attached xs"
  "attached (LinkProgram p # xs) = attached xs"
  "attached (GetProgramiv p # xs) = attached xs"
  "attached (GetProgramInfoLog p # xs) = attached xs"
  "attached (Cerr t # xs) = attached xs"
  "attached (Cout t # xs) = attached xs"
  by (simp_all add: attached_def)

lemma attached_link_report [simp]: "attached (link_report drv nm) = []"
  by (simp add: link_report_def)




section \<open>Binding images, the work size and initialization\<close>

lemma consistent_new: "consistent new_session"
  by (simp add: consistent_def new_session_def)

lemma bindImage_bad_index:
  "\<not> (0 \<le> idx \<and> idx < int (kernel_arg_count env)) \<Longrightarrow>
   bindImage env acc dim idx tex s = rejected ArgumentIndexOutOfRange s"
  by (simp add: bindImage_def not_le not_less)

lemma bindImage_not_wrappable:
  "0 \<le> idx \<Longrightarrow> idx < int (kernel_arg_count env) \<Longrightarrow> \<not> wrappable env tex \<Longrightarrow>
   bindImage env acc dim idx tex s = rejected ImageWrapFailed s"
  by (simp add: bindImage_def)

lemma bindImage_table_full:
  "0 \<le> idx \<Longrightarrow> idx < int (kernel_arg_count env) \<Longrightarrow> wrappable env tex \<Longrightarrow>
   argument_images s idx = None \<Longrightarrow> MAX_IMAGES \<le> length (image_objects s) \<Longrightarrow>
   bindImage env acc dim idx tex s = rejected ImageTableFull s"
  by (simp add: bindImage_def)

lemma bindImage_stores:
  "0 \<le> idx \<Longrightarrow> idx < int (kernel_arg_count env) \<Longrightarrow> wrappable env tex \<Longrightarrow>
   argument_images s idx = None \<Longrightarrow> length (image_objects s) < MAX_IMAGES \<Longrightarrow>
   bindImage env acc dim idx tex s =
     (Inr idx, s\<lparr>image_objects := image_objects s @ [ClImage (next_image s) tex acc dim],
                 argument_images := (argument_images s)(idx \<mapsto> ClImage (next_image s) tex acc dim),
                 next_image := Suc (next_image s)\<rparr>)"
  by (simp add: bindImage_def release_bound_def Let_def)

lemma bindImage_rebinds:
  "0 \<le> idx \<Longrightarrow> idx < int (kernel_arg_count env) \<Longrightarrow> wrappable env tex \<Longrightarrow>
   argument_images s idx = Some old \<Longrightarrow>
   bindImage env acc dim idx tex s =
     (Inr idx, s\<lparr>image_objects := remove1 old (image_objects s) @ [ClImage (next_image s) tex acc dim],
                 argument_images := (argument_images s)(idx \<mapsto> ClImage (next_image s) tex acc dim),
                 released := released s @ [old],
                 next_image := Suc (next_image s)\<rparr>)"
  by (simp add: bindImage_def release_bound_def Let_def)

lemma ran_remove_key:
  assumes "inj_on m (dom m)" and "m k = Some v"
  shows "ran (m(k := None)) = ran m - {v}"
proof
  show "ran (m(k := None)) \<subseteq> ran m - {v}"
  proof
    fix b assume "b \<in> ran (m(k := None))"
    then obtain a where a: "a \<noteq> k" "m a = Some b"
      by (auto simp: ran_def split: if_splits)
    have "b \<noteq> v"
    proof
      assume "b = v"
      then have "m a = m k" using a(2) assms(2) by simp
      moreover have "a \<in> dom m" "k \<in> dom m" using a(2) assms(2) by auto
      ultimately have "a = k" using assms(1) by (auto dest: inj_onD)
      then show False using a(1) by simp
    qed
    then show "b \<in> ran m - {v}" using a(2) by (auto simp: ran_def)
  qed
  show "ran m - {v} \<subseteq> ran (m(k := None))"
  proof
    fix b assume "b \<in> ran m - {v}"
    then obtain a where a: "m a = Some b" "b \<noteq> v" by (auto simp: ran_def)
    then have "a \<noteq> k" using assms(2) by auto
    then show "b \<in> ran (m(k := None))" using a(1) by (auto simp: ran_def)
  qed
qed

lemma ran_replace_key:
  assumes "inj_on m (dom m)" and "m k = Some v"
  shows "ran (m(k \<mapsto> w)) = insert w (ran m - {v})"
proof -
  have "m(k \<mapsto> w) = (m(k := None))(k \<mapsto> w)" by simp
  moreover have "ran ((m(k := None))(k \<mapsto> w)) = insert w (ran (m(k := None)))"
    by (rule ran_map_upd) simp
  ultimately show ?thesis using ran_remove_key [OF assms] by simp
qed

lemma inj_on_map_upd_fresh:
  assumes "inj_on m (dom m)" and "w \<notin> ran m"
  shows "inj_on (m(k \<mapsto> w)) (dom (m(k \<mapsto> w)))"
proof (rule inj_onI)
  fix a b
  assume a: "a \<in> dom (m(k \<mapsto> w))" and b: "b \<in> dom (m(k \<mapsto> w))"
    and eq: "(m(k \<mapsto> w)) a = (m(k \<mapsto> w)) b"
  show "a = b"
  proof (cases "a = k")
    case True
    show ?thesis
    proof (rule ccontr)
      assume "a \<noteq> b"
      then have "m b = Some w" using eq True by (simp split: if_splits)
      then show False using assms(2) by (auto simp: ran_def)
    qed
  next
    case False
    show ?thesis
    proof (cases "b = k")
      case True
      then have "m a = Some w" using eq False by (simp split: if_splits)
      then show ?thesis using assms(2) by (auto simp: ran_def)
    next
      case bk: False
      then have "m a = m b" using eq False by simp
      moreover have "a \<in> dom m" "b \<in> dom m" using a b False bk by auto
      ultimately show ?thesis using assms(1) by (auto dest: inj_onD)
    qed
  qed
qed

lemma fresh_handle_not_stored:
  assumes "handle ` set (xs @ ys) = {..<n}"
  shows "ClImage n t a d \<notin> set xs" and "n \<notin> handle ` set xs" and "n \<notin> handle ` set ys"
proof -
  have "n \<notin> handle ` set (xs @ ys)" using assms by simp
  then show "n \<notin> handle ` set xs" and "n \<notin> handle ` set ys" by auto
  then show "ClImage n t a d \<notin> set xs" by force
qed

lemma consistent_diagnostics: "consistent (s\<lparr>diagnostics := d\<rparr>) = consistent s"
  by (simp add: consistent_def)

lemma consistent_rejected: "consistent s \<Longrightarrow> consistent (snd (rejected e s))"
  by (simp add: rejected_def consistent_diagnostics)

lemma consistentD:
  assumes "consistent s"
  shows "distinct (map handle (image_objects s @ released s))"
    and "handle ` set (image_objects s @ released s) = {..<next_image s}"
    and "set (image_objects s) = ran (argument_images s)"
    and "inj_on (argument_images s) (dom (argument_images s))"
    and "length (image_objects s) \<le> MAX_IMAGES"
  using assms unfolding consistent_def by blast+

lemma consistent_stores:
  assumes "consistent s" and "argument_images s idx = None"
    and "length (image_objects s) < MAX_IMAGES"
  shows "consistent (s\<lparr>image_objects := image_objects s @ [ClImage (next_image s) tex acc dim],
                 argument_images := (argument_images s)(idx \<mapsto> ClImage (next_image s) tex acc dim),
                 next_image := Suc (next_image s)\<rparr>)"
proof -
  let ?new = "ClImage (next_image s) tex acc dim"
  note c = consistentD [OF assms(1)]
  note f = fresh_handle_not_stored [OF c(2)]
  have new: "?new \<notin> ran (argument_images s)" using f(1) [of tex acc dim] c(3) by simp
  have 1: "distinct (map handle ((image_objects s @ [?new]) @ released s))"
    using c(1) f(2,3) by auto
  have "handle ` set ((image_objects s @ [?new]) @ released s) =
      insert (next_image s) (handle ` set (image_objects s @ released s))"
    by auto
  then have 2: "handle ` set ((image_objects s @ [?new]) @ released s) = {..<Suc (next_image s)}"
    unfolding c(2) by (simp add: lessThan_Suc)
  have 3: "set (image_objects s @ [?new]) = ran ((argument_images s)(idx \<mapsto> ?new))"
    using c(3) assms(2) by simp
  have 4: "inj_on ((argument_images s)(idx \<mapsto> ?new)) (dom ((argument_images s)(idx \<mapsto> ?new)))"
    by (rule inj_on_map_upd_fresh [OF c(4) new])
  have 5: "length (image_objects s @ [?new]) \<le> MAX_IMAGES" using assms(3) by simp
  show ?thesis
    unfolding consistent_def using 1 2 3 4 5 by simp
qed

lemma consistent_rebinds:
  assumes "consistent s" and "argument_images s idx = Some old"
  shows "consistent (s\<lparr>image_objects := remove1 old (image_objects s) @ [ClImage (next_image s) tex acc dim],
                 argument_images := (argument_images s)(idx \<mapsto> ClImage (next_image s) tex acc dim),
                 released := released s @ [old],
                 next_image := Suc (next_image s)\<rparr>)"
proof -
  let ?new = "ClImage (next_image s) tex acc dim"
  let ?tab = "remove1 old (image_objects s) @ [?new]"
  let ?rel = "released s @ [old]"
  note c = consistentD [OF assms(1)]
  note f = fresh_handle_not_stored [OF c(2)]
  have new: "?new \<notin> ran (argument_images s)" using f(1) [of tex acc dim] c(3) by simp
  have old: "old \<in> set (image_objects s)"
    using assms(2) c(3) by (auto simp: ran_def)
  have dt: "distinct (image_objects s)"
    using c(1) by (simp add: distinct_map)
  have m: "mset (map handle (?tab @ ?rel)) =
      add_mset (next_image s) (mset (map handle (image_objects s @ released s)))"
    using old by (simp add: image_mset_Diff)
  have "distinct (next_image s # map handle (image_objects s @ released s))"
    using c(1) f(2,3) by auto
  then have 1: "distinct (map handle (?tab @ ?rel))"
    using m by (metis distinct_count_atmost_1 mset.simps(2) set_mset_mset)
  have "set (map handle (?tab @ ?rel)) =
      set (next_image s # map handle (image_objects s @ released s))"
    by (rule mset_eq_setD) (simp only: m mset.simps)
  then have "handle ` set (?tab @ ?rel) =
      insert (next_image s) (handle ` set (image_objects s @ released s))"
    by (simp only: set_map list.set)
  then have 2: "handle ` set (?tab @ ?rel) = {..<Suc (next_image s)}"
    unfolding c(2) by (simp add: lessThan_Suc)
  have "set (remove1 old (image_objects s)) = ran (argument_images s) - {old}"
    using dt c(3) by simp
  then have 3: "set ?tab = ran ((argument_images s)(idx \<mapsto> ?new))"
    using ran_replace_key [OF c(4) assms(2), of ?new] by simp
  have 4: "inj_on ((argument_images s)(idx \<mapsto> ?new)) (dom ((argument_images s)(idx \<mapsto> ?new)))"
    by (rule inj_on_map_upd_fresh [OF c(4) new])
  have "length (remove1 old (image_objects s)) = length (image_objects s) - 1"
    using old by (simp add: length_remove1)
  moreover have "0 < length (image_objects s)" using old by (cases "image_objects s") auto
  ultimately have 5: "length ?tab \<le> MAX_IMAGES" using c(5) by simp
  show ?thesis
    unfolding consistent_def using 1 2 3 4 5 by simp
qed

lemma consistent_bindImage:
  assumes "consistent s"
  shows "consistent (snd (bindImage env acc dim idx tex s))"
proof (cases "0 \<le> idx \<and> idx < int (kernel_arg_count env)")
  case False
  then show ?thesis
    using consistent_rejected [OF assms] by (simp add: bindImage_bad_index)
next
  case idx: True
  show ?thesis
  proof (cases "wrappable env tex")
    case False
    then show ?thesis
      using idx consistent_rejected [OF assms] by (simp add: bindImage_not_wrappable)
  next
    case w: True
    show ?thesis
    proof (cases "argument_images s idx")
      case None
      show ?thesis
      proof (cases "length (image_objects s) < MAX_IMAGES")
        case True
        show ?thesis
          using idx w None True consistent_stores [OF assms None True]
          by (simp add: bindImage_stores)
      next
        case False
        then have "MAX_IMAGES \<le> length (image_objects s)" by simp
        then show ?thesis
          using idx w None consistent_rejected [OF assms] by (simp add: bindImage_table_full)
      qed
    next
      case (Some old)
      show ?thesis
        using idx w Some consistent_rebinds [OF assms Some]
        by (simp add: bindImage_rebinds)
    qed
  qed
qed

lemma consistent_bind_all:
  "consistent s \<Longrightarrow> consistent (snd (bind_all env reqs s))"
proof (induction reqs arbitrary: s)
  case Nil
  then show ?case by simp
next
  case (Cons r reqs)
  obtain acc dim idx tex where r: "r = (acc, dim, idx, tex)" by (cases r)
  have "consistent (snd (bindImage env acc dim idx tex s))"
    by (rule consistent_bindImage [OF Cons.prems])
  then have "consistent (snd (bind_all env reqs (snd (bindImage env acc dim idx tex s))))"
    by (rule Cons.IH)
  then show ?case by (simp add: r Let_def)
qed

lemma bind_all_fresh:
  assumes "distinct (map request_index reqs)"
    and "\<forall>r \<in> set reqs. request_ok env r \<and> argument_images s (request_index r) = None"
    and "length (image_objects s) = n" and "n \<le> MAX_IMAGES"
  shows "fst (bind_all env reqs s) =
           map (\<lambda>r. Inr (request_index r)) (take (MAX_IMAGES - n) reqs) @
           replicate (length reqs - (MAX_IMAGES - n)) (Inl ImageTableFull)
         \<and> length (image_objects (snd (bind_all env reqs s))) = min (n + length reqs) MAX_IMAGES
         \<and> diagnostics (snd (bind_all env reqs s)) =
           diagnostics s @ replicate (length reqs - (MAX_IMAGES - n)) ImageTableFull"
  using assms
proof (induction reqs arbitrary: s n)
  case Nil
  then show ?case by simp
next
  case (Cons r reqs)
  obtain acc dim idx tex where r: "r = (acc, dim, idx, tex)" by (cases r)
  have ri: "request_index r = idx" by (simp add: r request_index_def)
  have ok: "0 \<le> idx" "idx < int (kernel_arg_count env)" "wrappable env tex"
    using Cons.prems(2) by (auto simp: r request_ok_def)
  have unb: "argument_images s idx = None" using Cons.prems(2) ri by auto
  have d: "distinct (map request_index reqs)" "\<forall>r' \<in> set reqs. request_index r' \<noteq> idx"
    using Cons.prems(1) ri by (auto simp: image_iff)
  show ?case
  proof (cases "n < MAX_IMAGES")
    case True
    let ?s' = "s\<lparr>image_objects := image_objects s @ [ClImage (next_image s) tex acc dim],
                 argument_images := (argument_images s)(idx \<mapsto> ClImage (next_image s) tex acc dim),
                 next_image := Suc (next_image s)\<rparr>"
    have b: "bindImage env acc dim idx tex s = (Inr idx, ?s')"
      using ok unb True Cons.prems(3) by (simp add: bindImage_stores)
    have p: "\<forall>r' \<in> set reqs. request_ok env r' \<and> argument_images ?s' (request_index r') = None"
      using Cons.prems(2) d(2) by auto
    have l: "length (image_objects ?s') = Suc n" using Cons.prems(3) by simp
    have le: "Suc n \<le> MAX_IMAGES" using True by simp
    note ih = Cons.IH [OF d(1) p l le]
    have "MAX_IMAGES - n = Suc (MAX_IMAGES - Suc n)" using True by simp
    then have t: "take (MAX_IMAGES - n) (r # reqs) = r # take (MAX_IMAGES - Suc n) reqs"
      by simp
    have len: "length (r # reqs) - (MAX_IMAGES - n) = length reqs - (MAX_IMAGES - Suc n)"
      using True by auto
    have step: "bind_all env (r # reqs) s =
        (Inr idx # fst (bind_all env reqs ?s'), snd (bind_all env reqs ?s'))"
      by (simp add: r b Let_def)
    have dg: "diagnostics ?s' = diagnostics s" by simp
    show ?thesis
      unfolding step t len fst_conv snd_conv using ih unfolding dg by (simp add: ri)
  next
    case False
    then have n: "n = MAX_IMAGES" using Cons.prems(4) by simp
    let ?s' = "s\<lparr>diagnostics := diagnostics s @ [ImageTableFull]\<rparr>"
    have b: "bindImage env acc dim idx tex s = (Inl ImageTableFull, ?s')"
      using ok unb n Cons.prems(3) by (simp add: bindImage_table_full rejected_def)
    have p: "\<forall>r' \<in> set reqs. request_ok env r' \<and> argument_images ?s' (request_index r') = None"
      using Cons.prems(2) by auto
    have l: "length (image_objects ?s') = n" using Cons.prems(3) by simp
    note ih = Cons.IH [OF d(1) p l Cons.prems(4)]
    have step: "bind_all env (r # reqs) s =
        (Inl ImageTableFull # fst (bind_all env reqs ?s'), snd (bind_all env reqs ?s'))"
      by (simp add: r b Let_def)
    have dg: "diagnostics ?s' = diagnostics s @ [ImageTableFull]" by simp
    show ?thesis
      unfolding step fst_conv snd_conv using ih unfolding dg
      by (simp add: n replicate_app_Cons_same)
  qed
qed

lemma lookup_after_bindImage:
  assumes "fst (bindImage env acc dim idx tex s) = Inr slot"
  shows "0 \<le> idx" and "idx < int (kernel_arg_count env)" and "wrappable env tex"
proof -
  have 1: "0 \<le> idx \<and> idx < int (kernel_arg_count env)"
  proof (rule ccontr)
    assume "\<not> (0 \<le> idx \<and> idx < int (kernel_arg_count env))"
    then have "bindImage env acc dim idx tex s = rejected ArgumentIndexOutOfRange s"
      by (rule bindImage_bad_index)
    then show False using assms by (simp add: rejected_def)
  qed
  then show "0 \<le> idx" and "idx < int (kernel_arg_count env)" by simp_all
  show "wrappable env tex"
  proof (rule ccontr)
    assume "\<not> wrappable env tex"
    then have "bindImage env acc dim idx tex s = rejected ImageWrapFailed s"
      using 1 by (simp add: bindImage_not_wrappable)
    then show False using assms by (simp add: rejected_def)
  qed
qed

text \<open>
  Claim C4, as amended. The three 3D image-binding functions return the result of the bind,
  an argument slot or an error, to their caller; the three 2D ones are declared \<open>void\<close>
  and return nothing.
\<close>

theorem image_binding_return_types:
  "fst (setWriteImage3DArgument env idx tex s) = Value (fst (bindImage env WriteOnly Dim3D idx tex s))
   \<and> fst (setReadImage3DArgument env idx tex s) = Value (fst (bindImage env ReadOnly Dim3D idx tex s))
   \<and> fst (setReadWriteImage3DArgument env idx tex s) = Value (fst (bindImage env ReadWrite Dim3D idx tex s))
   \<and> fst (setWriteImage2DArgument env idx tex s) = Nothing
   \<and> fst (setReadImage2DArgument env idx tex s) = Nothing
   \<and> fst (setReadWriteImage2DArgument env idx tex s) = Nothing"
  by (simp add: setWriteImage3DArgument_def setReadImage3DArgument_def
      setReadWriteImage3DArgument_def setWriteImage2DArgument_def setReadImage2DArgument_def
      setReadWriteImage2DArgument_def Let_def)

text \<open>Claim C4 as stated fails: the write-only 2D variant returns nothing.\<close>

theorem write_image_2D_returns_nothing:
  "fst (setWriteImage2DArgument env0 0 100 new_session) = Nothing"
  by (simp add: setWriteImage2DArgument_def Let_def)

text \<open>
  Claim C5. The image table never holds more than 9 image objects. On a new resource, binds
  at distinct valid indices succeed for the first 9 and every later one fails with
  \<open>ImageTableFull\<close>, which is returned and logged; the table then still holds 9.
\<close>

theorem tenth_image_is_refused:
  assumes "distinct (map request_index reqs)" and "\<forall>r \<in> set reqs. request_ok env r"
  shows "MAX_IMAGES = 9
   \<and> fst (bind_all env reqs new_session) =
       map (\<lambda>r. Inr (request_index r)) (take 9 reqs) @ replicate (length reqs - 9) (Inl ImageTableFull)
   \<and> length (image_objects (snd (bind_all env reqs new_session))) = min (length reqs) 9
   \<and> diagnostics (snd (bind_all env reqs new_session)) = replicate (length reqs - 9) ImageTableFull
   \<and> length (image_objects (snd (bind_all env any_reqs new_session))) \<le> 9"
proof -
  have p: "\<forall>r \<in> set reqs. request_ok env r \<and> argument_images new_session (request_index r) = None"
    using assms(2) by (simp add: new_session_def)
  have l: "length (image_objects new_session) = 0" by (simp add: new_session_def)
  have d: "diagnostics new_session = []" by (simp add: new_session_def)
  note b = bind_all_fresh [OF assms(1) p l, simplified d]
  have "consistent (snd (bind_all env any_reqs new_session))"
    by (rule consistent_bind_all [OF consistent_new])
  then have "length (image_objects (snd (bind_all env any_reqs new_session))) \<le> MAX_IMAGES"
    by (rule consistentD(5))
  then show ?thesis using b by (simp add: MAX_IMAGES_def)
qed

theorem tenth_image_is_refused_witness:
  "distinct (map request_index ten_requests) \<and>
   fst (bind_all env0 ten_requests new_session) =
     [Inr 0, Inr 1, Inr 2, Inr 3, Inr 4, Inr 5, Inr 6, Inr 7, Inr 8, Inl ImageTableFull] \<and>
   length (image_objects (snd (bind_all env0 ten_requests new_session))) = 9 \<and>
   diagnostics (snd (bind_all env0 ten_requests new_session)) = [ImageTableFull]"
proof -
  have d: "distinct (map request_index ten_requests)"
    by (simp add: ten_requests_def request_index_def)
  have ok: "\<forall>r \<in> set ten_requests. request_ok env0 r"
    by (simp add: ten_requests_def request_ok_def env0_def)
  have t: "map (\<lambda>r. Inr (request_index r)) (take 9 ten_requests) =
      [Inr 0, Inr 1, Inr 2, Inr 3, Inr 4, Inr 5, Inr 6, Inr 7, Inr 8 :: cl_error + int]"
    by (simp add: ten_requests_def request_index_def)
  have l: "length ten_requests = 10" by (simp add: ten_requests_def)
  show ?thesis
    using d tenth_image_is_refused [OF d ok, of "[]"] unfolding t l by simp
qed

text \<open>
  Claim C6. A successful bind at an index that has an image object bound releases exactly
  that image object, takes it out of the table and stores the new one in its place: the
  table does not grow, the index has the new binding only, no image object is released
  twice, and every image object created is live or released. Every resource reached by
  binds from a new one is consistent.
\<close>

theorem rebinding_releases_prior_image:
  assumes "consistent s" and "argument_images s idx = Some old"
    and "bindImage env acc dim idx tex s = (Inr slot, s')"
  shows "released s' = released s @ [old]
   \<and> image_objects s' = remove1 old (image_objects s) @ [ClImage (next_image s) tex acc dim]
   \<and> argument_images s' = (argument_images s)(idx \<mapsto> ClImage (next_image s) tex acc dim)
   \<and> old \<in> set (image_objects s) \<and> old \<notin> set (image_objects s')
   \<and> length (image_objects s') = length (image_objects s)
   \<and> distinct (map handle (released s'))
   \<and> handle ` set (image_objects s' @ released s') = {..<next_image s'}
   \<and> consistent s'
   \<and> consistent (snd (bind_all env any_reqs new_session))"
proof -
  have f: "fst (bindImage env acc dim idx tex s) = Inr slot" using assms(3) by simp
  have reach: "consistent (snd (bind_all env any_reqs new_session))"
    by (rule consistent_bind_all [OF consistent_new])
  note ok = lookup_after_bindImage [OF f]
  let ?new = "ClImage (next_image s) tex acc dim"
  have s': "s' = s\<lparr>image_objects := remove1 old (image_objects s) @ [?new],
                 argument_images := (argument_images s)(idx \<mapsto> ?new),
                 released := released s @ [old],
                 next_image := Suc (next_image s)\<rparr>"
    using assms(3) bindImage_rebinds [OF ok assms(2), of acc dim] by auto
  have c': "consistent s'"
    unfolding s' by (rule consistent_rebinds [OF assms(1,2)])
  note c = consistentD [OF assms(1)]
  note d = consistentD [OF c']
  have old: "old \<in> set (image_objects s)"
    using assms(2) c(3) by (auto simp: ran_def)
  have rel: "released s' = released s @ [old]" by (simp add: s')
  have "handle old \<notin> handle ` set (image_objects s')"
    using d(1) unfolding rel by auto
  then have gone: "old \<notin> set (image_objects s')" by auto
  have len: "length (image_objects s') = length (image_objects s)"
  proof -
    have "0 < length (image_objects s)" using old by (cases "image_objects s") auto
    then show ?thesis using old by (simp add: s' length_remove1)
  qed
  have dr: "distinct (map handle (released s'))" using d(1) by simp
  show ?thesis
    using rel old gone len dr d(2) c' reach by (simp add: s')
qed

lemma first_bind:
  "bindImage env0 ReadOnly Dim3D 0 100 new_session =
     (Inr 0, new_session\<lparr>image_objects := [ClImage 0 100 ReadOnly Dim3D],
                 argument_images := [0 \<mapsto> ClImage 0 100 ReadOnly Dim3D],
                 next_image := Suc 0\<rparr>)"
proof -
  have "bindImage env0 ReadOnly Dim3D 0 100 new_session =
     (Inr 0, new_session\<lparr>image_objects := image_objects new_session @ [ClImage (next_image new_session) 100 ReadOnly Dim3D],
                 argument_images := (argument_images new_session)(0 \<mapsto> ClImage (next_image new_session) 100 ReadOnly Dim3D),
                 next_image := Suc (next_image new_session)\<rparr>)"
    by (rule bindImage_stores) (simp_all add: env0_def new_session_def MAX_IMAGES_def)
  then show ?thesis by (simp add: new_session_def)
qed

theorem rebinding_releases_prior_image_witness:
  "consistent (snd (bindImage env0 ReadOnly Dim3D 0 100 new_session)) \<and>
   argument_images (snd (bindImage env0 ReadOnly Dim3D 0 100 new_session)) 0 =
     Some (ClImage 0 100 ReadOnly Dim3D) \<and>
   fst (bindImage env0 WriteOnly Dim3D 0 200 (snd (bindImage env0 ReadOnly Dim3D 0 100 new_session))) = Inr 0 \<and>
   released (snd (bindImage env0 WriteOnly Dim3D 0 200
      (snd (bindImage env0 ReadOnly Dim3D 0 100 new_session)))) = [ClImage 0 100 ReadOnly Dim3D] \<and>
   image_objects (snd (bindImage env0 WriteOnly Dim3D 0 200
      (snd (bindImage env0 ReadOnly Dim3D 0 100 new_session)))) = [ClImage 1 200 WriteOnly Dim3D]"
proof -
  let ?s1 = "snd (bindImage env0 ReadOnly Dim3D 0 100 new_session)"
  have c: "consistent ?s1" by (rule consistent_bindImage [OF consistent_new])
  have a: "argument_images ?s1 0 = Some (ClImage 0 100 ReadOnly Dim3D)"
    by (simp add: first_bind)
  have n1: "next_image ?s1 = 1" by (simp add: first_bind)
  have "released ?s1 = released new_session" by (simp add: first_bind)
  then have n2: "released ?s1 = []" by (simp add: new_session_def)
  have n3: "image_objects ?s1 = [ClImage 0 100 ReadOnly Dim3D]" by (simp add: first_bind)
  note n = n1 n2 n3
  have f: "fst (bindImage env0 WriteOnly Dim3D 0 200 ?s1) = Inr 0"
    using bindImage_rebinds [of 0 env0 200 ?s1 "ClImage 0 100 ReadOnly Dim3D" WriteOnly Dim3D] a
    by (simp add: env0_def)
  have p: "bindImage env0 WriteOnly Dim3D 0 200 ?s1 = (Inr 0, snd (bindImage env0 WriteOnly Dim3D 0 200 ?s1))"
    using f by (simp add: prod_eq_iff)
  show ?thesis
    using c a f rebinding_releases_prior_image [OF c a p, of "[]"] unfolding n by simp
qed

lemma int_div_bounds:
  fixes a c :: int
  assumes "0 < c"
  shows "a div c * c \<le> a" and "a < (a div c + 1) * c" and "a < b * c \<Longrightarrow> a div c < b"
proof -
  have e: "a div c * c + a mod c = a" by (rule div_mult_mod_eq)
  have m: "0 \<le> a mod c" "a mod c < c" using assms by simp_all
  show 1: "a div c * c \<le> a" using e m(1) by linarith
  have "(a div c + 1) * c = a div c * c + c" by (simp add: algebra_simps)
  then show "a < (a div c + 1) * c" using e m(2) by linarith
  show "a div c < b" if "a < b * c"
  proof (rule ccontr)
    assume "\<not> a div c < b"
    then have "b \<le> a div c" by simp
    then have "b * c \<le> a div c * c" using assms by (simp add: mult_right_mono)
    then show False using 1 that by linarith
  qed
qed

lemma size_t_of_float_in_range:
  assumes "float_finite f" and "- (2 ^ 149) < float_scaled f" and "float_scaled f < 2 ^ 64 * 2 ^ 149"
  shows "uint (size_t_of_float unspecified f) * 2 ^ 149 \<le> max 0 (float_scaled f)"
    and "max 0 (float_scaled f) < (uint (size_t_of_float unspecified f) + 1) * 2 ^ 149"
    and "uint (size_t_of_float unspecified f) = float_truncated f"
proof -
  let ?s = "float_scaled f"
  have p: "(0::int) < 2 ^ 149" by simp
  have t: "float_truncated f = max 0 ?s div 2 ^ 149"
  proof (cases "?s < 0")
    case True
    then have "(- ?s) div 2 ^ 149 = 0" using assms(2) by (intro div_pos_pos_trivial) auto
    then show ?thesis using True by (simp add: float_truncated_def max_def)
  next
    case False
    then show ?thesis by (simp add: float_truncated_def max_def)
  qed
  have nn: "0 \<le> float_truncated f" unfolding t by (simp add: pos_imp_zdiv_nonneg_iff)
  have "max 0 ?s < 2 ^ 64 * 2 ^ 149" using assms(3) by simp
  then have lt: "float_truncated f < 2 ^ 64"
    unfolding t by (rule int_div_bounds(3) [OF p])
  have c: "size_t_of_float unspecified f = word_of_int (float_truncated f)"
    using assms(1) nn lt by (simp add: size_t_of_float_def)
  have "uint (word_of_int (float_truncated f) :: 64 word) = float_truncated f"
    using nn lt by (simp add: uint_word_of_int take_bit_int_eq_self)
  then show u: "uint (size_t_of_float unspecified f) = float_truncated f"
    using c by simp
  show "uint (size_t_of_float unspecified f) * 2 ^ 149 \<le> max 0 (float_scaled f)"
    unfolding u t by (rule int_div_bounds(1) [OF p])
  show "max 0 (float_scaled f) < (uint (size_t_of_float unspecified f) + 1) * 2 ^ 149"
    unfolding u t by (rule int_div_bounds(2) [OF p])
qed


lemma size_t_of_float_truncates:
  "fits_size_t f \<Longrightarrow> holds_truncation (size_t_of_float unspecified f) f"
  unfolding fits_size_t_def holds_truncation_def
  using size_t_of_float_in_range(1,2) [of f unspecified] by blast

lemma holds_truncation_whole:
  assumes "holds_truncation t f" and "float_scaled f = n * 2 ^ 149" and "0 \<le> n"
  shows "holds_value t f"
proof -
  have m: "max 0 (float_scaled f) = n * 2 ^ 149" using assms(2,3) by simp
  have "uint t * 2 ^ 149 \<le> n * 2 ^ 149" "n * 2 ^ 149 < (uint t + 1) * 2 ^ 149"
    using assms(1) unfolding holds_truncation_def m by simp_all
  then have "uint t \<le> n" "n < uint t + 1" by simp_all
  then have "uint t = n" by simp
  then show ?thesis by (simp add: holds_value_def assms(2))
qed

text \<open>
  Claim C7, as amended. \<open>setGlobalWorkSize\<close> changes no member but the global work size,
  and a second call replaces the extent. A component that is finite with a value strictly
  between \<open>-1\<close> and \<open>2 ^ 64\<close> is stored with its fraction discarded, so a whole number
  in that range is stored as it is. For any other component C++ leaves the conversion
  undefined, and what is stored is the platform's answer.
\<close>

theorem setGlobalWorkSize_frame:
  "(\<forall>x y z a b c. v = vec3 x y z \<and> globalWorkSize (setGlobalWorkSize u v cs) = (a, b, c) \<longrightarrow>
        (fits_size_t x \<longrightarrow> holds_truncation a x) \<and>
        (fits_size_t y \<longrightarrow> holds_truncation b y) \<and>
        (fits_size_t z \<longrightarrow> holds_truncation c z) \<and>
        (\<forall>n. 0 \<le> n \<and> n < 2 ^ 64 \<and> float_finite x \<and> float_scaled x = n * 2 ^ 149 \<longrightarrow> holds_value a x) \<and>
        (\<forall>n. 0 \<le> n \<and> n < 2 ^ 64 \<and> float_finite y \<and> float_scaled y = n * 2 ^ 149 \<longrightarrow> holds_value b y) \<and>
        (\<forall>n. 0 \<le> n \<and> n < 2 ^ 64 \<and> float_finite z \<and> float_scaled z = n * 2 ^ 149 \<longrightarrow> holds_value c z) \<and>
        (\<not> (float_finite x \<and> 0 \<le> float_truncated x \<and> float_truncated x < 2 ^ 64) \<longrightarrow> a = u x) \<and>
        (\<not> (float_finite y \<and> 0 \<le> float_truncated y \<and> float_truncated y < 2 ^ 64) \<longrightarrow> b = u y) \<and>
        (\<not> (float_finite z \<and> 0 \<le> float_truncated z \<and> float_truncated z < 2 ^ 64) \<longrightarrow> c = u z))
   \<and> shareGroup (setGlobalWorkSize u v cs) = shareGroup cs
   \<and> cl_program (setGlobalWorkSize u v cs) = cl_program cs
   \<and> device_id (setGlobalWorkSize u v cs) = device_id cs
   \<and> cl_context (setGlobalWorkSize u v cs) = cl_context cs
   \<and> dispatch_queue (setGlobalWorkSize u v cs) = dispatch_queue cs
   \<and> command_queue (setGlobalWorkSize u v cs) = command_queue cs
   \<and> workgroup_size (setGlobalWorkSize u v cs) = workgroup_size cs
   \<and> kernel (setGlobalWorkSize u v cs) = kernel cs
   \<and> image_objects (setGlobalWorkSize u v cs) = image_objects cs
   \<and> dimensions (setGlobalWorkSize u v cs) = dimensions cs
   \<and> methodName (setGlobalWorkSize u v cs) = methodName cs
   \<and> images (setGlobalWorkSize u v cs) = images cs
   \<and> argument_images (setGlobalWorkSize u v cs) = argument_images cs
   \<and> ComputeShader.more (setGlobalWorkSize u v cs) = ComputeShader.more cs
   \<and> setGlobalWorkSize u w (setGlobalWorkSize u v cs) = setGlobalWorkSize u w cs"
proof -
  have whole: "holds_value (size_t_of_float u f) f"
    if "0 \<le> n" "n < 2 ^ 64" "float_finite f" "float_scaled f = n * 2 ^ 149" for f n
  proof -
    have "n * 2 ^ 149 < 2 ^ 64 * 2 ^ 149" using that(2) by simp
    moreover have "- (2 ^ 149) < n * (2 ^ 149 :: int)"
    proof -
      have "(0::int) \<le> n * 2 ^ 149" using that(1) by simp
      then show ?thesis by (simp add: less_le_trans [of _ 0])
    qed
    ultimately have "fits_size_t f"
      using that(3,4) by (simp add: fits_size_t_def)
    then have "holds_truncation (size_t_of_float u f) f" by (rule size_t_of_float_truncates)
    then show ?thesis using that(4,1) by (rule holds_truncation_whole)
  qed
  have other: "size_t_of_float u f = u f"
    if "\<not> (float_finite f \<and> 0 \<le> float_truncated f \<and> float_truncated f < 2 ^ 64)" for f
    unfolding size_t_of_float_def using that by (rule if_not_P)
  have frame: "shareGroup (setGlobalWorkSize u v cs) = shareGroup cs
   \<and> cl_program (setGlobalWorkSize u v cs) = cl_program cs
   \<and> device_id (setGlobalWorkSize u v cs) = device_id cs
   \<and> cl_context (setGlobalWorkSize u v cs) = cl_context cs
   \<and> dispatch_queue (setGlobalWorkSize u v cs) = dispatch_queue cs
   \<and> command_queue (setGlobalWorkSize u v cs) = command_queue cs
   \<and> workgroup_size (setGlobalWorkSize u v cs) = workgroup_size cs
   \<and> kernel (setGlobalWorkSize u v cs) = kernel cs
   \<and> image_objects (setGlobalWorkSize u v cs) = image_objects cs
   \<and> dimensions (setGlobalWorkSize u v cs) = dimensions cs
   \<and> methodName (setGlobalWorkSize u v cs) = methodName cs
   \<and> images (setGlobalWorkSize u v cs) = images cs
   \<and> argument_images (setGlobalWorkSize u v cs) = argument_images cs
   \<and> ComputeShader.more (setGlobalWorkSize u v cs) = ComputeShader.more cs
   \<and> setGlobalWorkSize u w (setGlobalWorkSize u v cs) = setGlobalWorkSize u w cs"
    by (simp add: setGlobalWorkSize_def)
  have stored: "a = size_t_of_float u x \<and> b = size_t_of_float u y \<and> c = size_t_of_float u z"
    if "v = vec3 x y z" "globalWorkSize (setGlobalWorkSize u v cs) = (a, b, c)" for x y z a b c
    using that by (simp add: setGlobalWorkSize_def)
  have conv: "(\<forall>x y z a b c. v = vec3 x y z \<and> globalWorkSize (setGlobalWorkSize u v cs) = (a, b, c) \<longrightarrow>
        (fits_size_t x \<longrightarrow> holds_truncation a x) \<and>
        (fits_size_t y \<longrightarrow> holds_truncation b y) \<and>
        (fits_size_t z \<longrightarrow> holds_truncation c z) \<and>
        (\<forall>n. 0 \<le> n \<and> n < 2 ^ 64 \<and> float_finite x \<and> float_scaled x = n * 2 ^ 149 \<longrightarrow> holds_value a x) \<and>
        (\<forall>n. 0 \<le> n \<and> n < 2 ^ 64 \<and> float_finite y \<and> float_scaled y = n * 2 ^ 149 \<longrightarrow> holds_value b y) \<and>
        (\<forall>n. 0 \<le> n \<and> n < 2 ^ 64 \<and> float_finite z \<and> float_scaled z = n * 2 ^ 149 \<longrightarrow> holds_value c z) \<and>
        (\<not> (float_finite x \<and> 0 \<le> float_truncated x \<and> float_truncated x < 2 ^ 64) \<longrightarrow> a = u x) \<and>
        (\<not> (float_finite y \<and> 0 \<le> float_truncated y \<and> float_truncated y < 2 ^ 64) \<longrightarrow> b = u y) \<and>
        (\<not> (float_finite z \<and> 0 \<le> float_truncated z \<and> float_truncated z < 2 ^ 64) \<longrightarrow> c = u z))"
  proof (intro allI impI, elim conjE)
    fix x y z a b c
    assume "v = vec3 x y z" and "globalWorkSize (setGlobalWorkSize u v cs) = (a, b, c)"
    then have s: "a = size_t_of_float u x" "b = size_t_of_float u y" "c = size_t_of_float u z"
      using stored by blast+
    show "(fits_size_t x \<longrightarrow> holds_truncation a x) \<and>
        (fits_size_t y \<longrightarrow> holds_truncation b y) \<and>
        (fits_size_t z \<longrightarrow> holds_truncation c z) \<and>
        (\<forall>n. 0 \<le> n \<and> n < 2 ^ 64 \<and> float_finite x \<and> float_scaled x = n * 2 ^ 149 \<longrightarrow> holds_value a x) \<and>
        (\<forall>n. 0 \<le> n \<and> n < 2 ^ 64 \<and> float_finite y \<and> float_scaled y = n * 2 ^ 149 \<longrightarrow> holds_value b y) \<and>
        (\<forall>n. 0 \<le> n \<and> n < 2 ^ 64 \<and> float_finite z \<and> float_scaled z = n * 2 ^ 149 \<longrightarrow> holds_value c z) \<and>
        (\<not> (float_finite x \<and> 0 \<le> float_truncated x \<and> float_truncated x < 2 ^ 64) \<longrightarrow> a = u x) \<and>
        (\<not> (float_finite y \<and> 0 \<le> float_truncated y \<and> float_truncated y < 2 ^ 64) \<longrightarrow> b = u y) \<and>
        (\<not> (float_finite z \<and> 0 \<le> float_truncated z \<and> float_truncated z < 2 ^ 64) \<longrightarrow> c = u z)"
      unfolding s
      using size_t_of_float_truncates [of x u] size_t_of_float_truncates [of y u]
        size_t_of_float_truncates [of z u] whole [of _ x] whole [of _ y] whole [of _ z]
        other [of x] other [of y] other [of z]
      by blast
  qed
  show ?thesis
    by (rule conjI [OF conv frame])
qed

text \<open>
  Claim C7 as stated fails: the vector \<open>(1.5, 2, 3)\<close> leaves 1 in the first component,
  which is not the value of \<open>1.5\<close>.
\<close>

theorem one_and_a_half_is_stored_as_one:
  "globalWorkSize (setGlobalWorkSize wraps_modulo (vec3 0x3FC00000 0x40000000 0x40400000) new_session) =
     (1, 2, 3) \<and>
   float_scaled 0x3FC00000 = 3 * 2 ^ 148 \<and>
   \<not> holds_value 1 0x3FC00000"
  by (simp add: setGlobalWorkSize_def size_t_of_float_def float_finite_def float_truncated_def
      float_scaled_def float_exponent_def float_fraction_def float_negative_def holds_value_def)

theorem setGlobalWorkSize_frame_witness:
  "fits_size_t 0x3FC00000 \<and> fits_size_t 0x42800000 \<and> \<not> fits_size_t 0xBF800000 \<and>
   float_finite 0x42800000 \<and> float_scaled 0x42800000 = 64 * 2 ^ 149 \<and>
   globalWorkSize (setGlobalWorkSize wraps_modulo (vec3 0x3FC00000 0x42800000 0xBF800000) new_session) =
     (1, 64, - 1) \<and>
   holds_truncation 1 0x3FC00000 \<and> holds_value 64 0x42800000 \<and>
   wraps_modulo 0xBF800000 = - 1"
proof -
  note defs = float_finite_def float_truncated_def float_scaled_def float_exponent_def
    float_fraction_def float_negative_def
  have f: "fits_size_t 0x3FC00000" "fits_size_t 0x42800000" "\<not> fits_size_t 0xBF800000"
    by (simp_all add: fits_size_t_def defs)
  have w: "float_finite 0x42800000" "float_scaled 0x42800000 = 64 * 2 ^ 149"
    by (simp_all add: defs)
  have n: "\<not> (float_finite 0xBF800000 \<and> 0 \<le> float_truncated 0xBF800000 \<and>
      float_truncated 0xBF800000 < 2 ^ 64)"
    by (simp add: defs)
  have m: "wraps_modulo 0xBF800000 = - 1"
    by (simp add: wraps_modulo_def defs)
  have g: "globalWorkSize (setGlobalWorkSize wraps_modulo (vec3 0x3FC00000 0x42800000 0xBF800000) new_session) =
     (1, 64, - 1)"
    by (simp add: setGlobalWorkSize_def size_t_of_float_def wraps_modulo_def defs)
  note th = setGlobalWorkSize_frame [where u = wraps_modulo
      and v = "vec3 0x3FC00000 0x42800000 0xBF800000" and cs = new_session]
  note q = th [THEN conjunct1, rule_format, OF conjI [OF refl g]]
  have t: "holds_truncation 1 0x3FC00000"
    by (rule q [THEN conjunct1, THEN mp, OF f(1)])
  have "(0::int) \<le> 64 \<and> (64::int) < 2 ^ 64 \<and> float_finite 0x42800000 \<and>
      float_scaled 0x42800000 = 64 * 2 ^ 149"
    using w by simp
  then have e: "holds_value 64 0x42800000"
    by (rule q [THEN conjunct2, THEN conjunct2, THEN conjunct2, THEN conjunct2,
          THEN conjunct1, rule_format])
  show ?thesis using f w g m t e by simp
qed

text \<open>
  Claim C8, as amended. \<open>init\<close> tries the GPU first and the CPU only when the GPU is not
  obtained. It succeeds exactly when the device it obtained supports sharing with the
  graphics context, and it logs \<open>DeviceNotFound\<close> exactly when neither device is obtained.
\<close>

theorem init_device_order:
  "fst (init env s) = (if gpu_device env \<noteq> None then [AttemptGPU] else [AttemptGPU, AttemptCPU])
   \<and> (fst (snd (init env s)) \<longleftrightarrow>
        (case gpu_device env of
           Some d \<Rightarrow> sharing_supported env d
         | None \<Rightarrow> (case cpu_device env of Some d \<Rightarrow> sharing_supported env d | None \<Rightarrow> False)))
   \<and> (diagnostics (snd (snd (init env s))) = diagnostics s @ [DeviceNotFound] \<longleftrightarrow>
        gpu_device env = None \<and> cpu_device env = None)"
  by (auto simp: init_def obtainGPUDevice_def obtainCPUDevice_def build_context_def Let_def
      split: option.splits)

text \<open>
  Claim C8 as stated fails: with a GPU that does not support sharing, \<open>init\<close> reports
  failure although a device was obtained.
\<close>

theorem init_fails_with_a_device:
  "gpu_device env1 = Some 1 \<and> \<not> fst (snd (init env1 new_session))"
  by (simp add: init_def obtainGPUDevice_def obtainCPUDevice_def build_context_def Let_def env1_def)

theorem init_device_order_witness:
  "gpu_device env2 = None \<and> fst (init env2 new_session) = [AttemptGPU, AttemptCPU] \<and>
   fst (snd (init env2 new_session)) \<and>
   diagnostics (snd (snd (init env2 new_session))) \<noteq> diagnostics new_session @ [DeviceNotFound]"
proof -
  have g: "gpu_device env2 = None" "cpu_device env2 = Some 2" "sharing_supported env2 2"
    by (simp_all add: env2_def)
  show ?thesis
    using init_device_order [of env2 new_session] g by simp
qed

end
